theory Spec2Isabelle
  imports
    Main
    "HOL-Library.Char_ord"
    "HOL-Library.List_Lexorder"
    "HOL-Library.Product_Lexorder"
    "HOL-Library.Multiset"
    "HOL-Library.Word"
begin

section \<open>Values exchanged with the outside: JSON data and errors\<close>

text \<open>
  The manager reads two kinds of untyped data: the document that \<^verbatim>\<open>json.load\<close> returns
  for \<^verbatim>\<open>config.json\<close>, and the attribute maps (\<^verbatim>\<open>Dict[str, Any]\<close>) that the Proxmox
  client returns. Both are values of \<open>json\<close>. A Python \<^verbatim>\<open>None\<close> is \<open>JNull\<close>; a \<^verbatim>\<open>dict\<close> is
  an association list whose first binding of a key is the dictionary's value for it.
  Floating point numbers are left out. Strings are byte strings (\<open>char list\<close>), compared
  as Python compares \<^verbatim>\<open>str\<close>: lexicographically by character code.
\<close>

datatype json =
    JNull
  | JBool bool
  | JInt int
  | JStr string
  | JArr "json list"
  | JObj "(string \<times> json) list"

text \<open>
  The exceptions of \<^verbatim>\<open>exceptions.py\<close> that the manager raises or catches, and the
  built-in exceptions that escape from it. \<open>Unsupported\<close> is not a Python exception: it
  marks an input on which the code would build a \<^verbatim>\<open>VMIdentifier\<close> whose fields do not
  have their declared types (a host name that is not a string, a VM id that is not an
  integer), which the typed record below cannot hold.
\<close>

datatype error =
    ConfigurationError
  | NodeDiscoveryError
  | ProxmoxError
  | ValueError
  | AttributeError
  | TypeError
  | KeyError
  | Unsupported

text \<open>Python truthiness (\<^verbatim>\<open>if not x\<close>).\<close>

fun py_truthy :: "json \<Rightarrow> bool" where
  "py_truthy JNull = False"
| "py_truthy (JBool b) = b"
| "py_truthy (JInt i) = (i \<noteq> 0)"
| "py_truthy (JStr s) = (s \<noteq> [])"
| "py_truthy (JArr xs) = (xs \<noteq> [])"
| "py_truthy (JObj kvs) = (kvs \<noteq> [])"

text \<open>\<^verbatim>\<open>d.get(k)\<close> and \<^verbatim>\<open>d.get(k, default)\<close>: only a \<^verbatim>\<open>dict\<close> has the method.\<close>

fun py_get :: "json \<Rightarrow> string \<Rightarrow> json \<Rightarrow> error + json" where
  "py_get (JObj kvs) k d = Inr (case map_of kvs k of None \<Rightarrow> d | Some v \<Rightarrow> v)"
| "py_get _ k d = Inl AttributeError"

text \<open>
  \<^verbatim>\<open>for x in v\<close>: a list yields its elements, a dict its keys, a string its characters;
  nothing else is iterable.
\<close>

fun py_iter :: "json \<Rightarrow> error + json list" where
  "py_iter (JArr xs) = Inr xs"
| "py_iter (JObj kvs) = Inr (map (\<lambda>kv. JStr (fst kv)) kvs)"
| "py_iter (JStr s) = Inr (map (\<lambda>c. JStr [c]) s)"
| "py_iter _ = Inl TypeError"

subsection \<open>String helpers\<close>

definition upper_char :: "char \<Rightarrow> char" where
  "upper_char c =
     (let n = (of_char c :: nat) in if 97 \<le> n \<and> n \<le> 122 then char_of (n - 32) else c)"

definition lower_char :: "char \<Rightarrow> char" where
  "lower_char c =
     (let n = (of_char c :: nat) in if 65 \<le> n \<and> n \<le> 90 then char_of (n + 32) else c)"

text \<open>\<^verbatim>\<open>str.upper\<close> and \<^verbatim>\<open>str.lower\<close> on ASCII letters.\<close>

definition upper :: "string \<Rightarrow> string" where
  "upper s = map upper_char s"

definition lower :: "string \<Rightarrow> string" where
  "lower s = map lower_char s"

text \<open>The white space that \<^verbatim>\<open>str.strip\<close> removes, among the ASCII characters.\<close>

definition is_space :: "char \<Rightarrow> bool" where
  "is_space c = (let n = (of_char c :: nat) in (9 \<le> n \<and> n \<le> 13) \<or> (28 \<le> n \<and> n \<le> 32))"

definition strip :: "string \<Rightarrow> string" where
  "strip s = rev (dropWhile is_space (rev (dropWhile is_space s)))"

text \<open>\<^verbatim>\<open>s.split(sep)\<close> for a one-character separator: always at least one field.\<close>

fun split_on :: "char \<Rightarrow> string \<Rightarrow> string list" where
  "split_on sep [] = [[]]"
| "split_on sep (c # cs) =
     (if c = sep then [] # split_on sep cs
      else (case split_on sep cs of
              [] \<Rightarrow> [[c]]
            | w # ws \<Rightarrow> (c # w) # ws))"

text \<open>\<^verbatim>\<open>sep.join(xs)\<close>.\<close>

fun join :: "string \<Rightarrow> string list \<Rightarrow> string" where
  "join sep [] = []"
| "join sep [x] = x"
| "join sep (x # y # ys) = x @ sep @ join sep (y # ys)"

text \<open>Decimal rendering of integers, as \<^verbatim>\<open>str(n)\<close> and f-strings produce it.\<close>

function show_nat :: "nat \<Rightarrow> string" where
  "show_nat n =
     (if n < 10 then [char_of (48 + n)]
      else show_nat (n div 10) @ [char_of (48 + n mod 10)])"
  by pat_completeness auto
termination
  by (relation "measure id") auto

definition show_int :: "int \<Rightarrow> string" where
  "show_int i = (if i < 0 then CHR ''-'' # show_nat (nat (- i)) else show_nat (nat i))"

section \<open>The VM identity model (models.py)\<close>

text \<open>
  \<^verbatim>\<open>VMIdentifier\<close> with its declared field types. \<open>name\<close> holds whatever the attribute map
  has under \<^verbatim>\<open>"name"\<close> (\<open>JNull\<close> for \<^verbatim>\<open>None\<close>); \<open>status\<close> is the attribute that
  \<^verbatim>\<open>perform_vm_action\<close> and \<^verbatim>\<open>configure_vms\<close> add to the object. Python compares and
  hashes two identifiers by \<^verbatim>\<open>(proxmox_node, vmid)\<close> only; that pair is \<open>vm_key\<close>, which
  is also the sort key of \<^verbatim>\<open>_populate_node_lists\<close> and \<^verbatim>\<open>configure_vms\<close>.
\<close>

record VMIdentifier =
  proxmox_node :: string
  vmid :: int
  name :: json
  ip_address :: "string option"
  tags :: "string list"
  config :: "(string \<times> json) list"
  status :: "string option"

definition vm_key :: "VMIdentifier \<Rightarrow> string \<times> int" where
  "vm_key vm = (proxmox_node vm, vmid vm)"

definition new_vm :: "string \<Rightarrow> int \<Rightarrow> VMIdentifier" where
  "new_vm n i =
     \<lparr>proxmox_node = n, vmid = i, name = JNull, ip_address = None, tags = [],
      config = [], status = None\<rparr>"

text \<open>
  \<^verbatim>\<open>list(set(xs))\<close>: one element for each identity, the first one inserted. Python leaves
  the order of the result open; every list built this way is sorted by \<open>vm_key\<close> before
  it is used, and here it keeps the order of insertion.
\<close>

fun list_set_acc :: "(string \<times> int) list \<Rightarrow> VMIdentifier list \<Rightarrow> VMIdentifier list" where
  "list_set_acc seen [] = []"
| "list_set_acc seen (x # xs) =
     (if vm_key x \<in> set seen then list_set_acc seen xs
      else x # list_set_acc (vm_key x # seen) xs)"

definition list_set :: "VMIdentifier list \<Rightarrow> VMIdentifier list" where
  "list_set xs = list_set_acc [] xs"

section \<open>The deployment manager (k3s\_manager.py)\<close>

text \<open>The node lists of \<^verbatim>\<open>K3sDeploymentManager\<close>.\<close>

record manager =
  servers :: "VMIdentifier list"
  agents :: "VMIdentifier list"
  storage :: "VMIdentifier list"
  all_nodes :: "VMIdentifier list"
  server_master :: "VMIdentifier option"
  servers_no_first :: "VMIdentifier list"

definition init_manager :: manager where
  "init_manager =
     \<lparr>servers = [], agents = [], storage = [], all_nodes = [],
      server_master = None, servers_no_first = []\<rparr>"

text \<open>
  \<^verbatim>\<open>_populate_node_lists\<close>: the four lists are sorted in place with the stable
  \<^verbatim>\<open>list.sort(key=sort_key)\<close>, then the master and the other servers are read off
  the sorted server list.
\<close>

definition populate_node_lists :: "manager \<Rightarrow> manager" where
  "populate_node_lists m =
     (let m1 = m\<lparr>all_nodes := sort_key vm_key (all_nodes m),
                 servers := sort_key vm_key (servers m),
                 agents := sort_key vm_key (agents m),
                 storage := sort_key vm_key (storage m)\<rparr>
      in (case servers m1 of
            s # rest \<Rightarrow> m1\<lparr>server_master := Some s, servers_no_first := rest\<rparr>
          | [] \<Rightarrow> m1\<lparr>server_master := None, servers_no_first := []\<rparr>))"



section \<open>Settings and local files (config.py)\<close>

text \<open>
  The module constants of \<^verbatim>\<open>config.py\<close> that the manager reads. The two ends of the
  address range are kept as what \<^verbatim>\<open>ipaddress.IPv4Address\<close> makes of the configured
  strings: \<open>None\<close> when it raises \<^verbatim>\<open>AddressValueError\<close>, otherwise the 32-bit address,
  whose \<^verbatim>\<open>int()\<close> is \<open>uint\<close>. \<open>SSH_PUBLIC_KEY\<close> is the environment variable
  \<^verbatim>\<open>K3S_SSH_PUBLIC_KEY\<close>, \<open>None\<close> when it is not set.
\<close>

record app_config =
  SERVER_TAG :: string
  AGENT_TAG :: string
  STORAGE_TAG :: string
  K3S_NODE_IP_RANGE_START :: "32 word option"
  K3S_NODE_IP_RANGE_END :: "32 word option"
  K3S_NODE_CIDR :: string
  K3S_NODE_GATEWAY :: string
  K3S_NODE_DNS_SERVERS :: "string list"
  K3S_NODE_SEARCH_DOMAIN :: "string option"
  K3S_NODE_IPCONFIG_INDEX :: int
  SSH_PUBLIC_KEY :: "string option"

text \<open>The values written in \<^verbatim>\<open>config.py\<close>, with no key in the environment.\<close>

definition default_config :: app_config where
  "default_config =
     \<lparr>SERVER_TAG = ''k3s-server'', AGENT_TAG = ''k3s-agent'', STORAGE_TAG = ''k3s-storage'',
      K3S_NODE_IP_RANGE_START = Some 168427721, K3S_NODE_IP_RANGE_END = Some 168427749,
      K3S_NODE_CIDR = ''24'', K3S_NODE_GATEWAY = ''10.10.0.1'',
      K3S_NODE_DNS_SERVERS = [''10.10.0.1''],
      K3S_NODE_SEARCH_DOMAIN = Some ''lan.home.vwn.io'',
      K3S_NODE_IPCONFIG_INDEX = 0, SSH_PUBLIC_KEY = None\<rparr>"

text \<open>
  What opening and reading a local file gives. For \<^verbatim>\<open>config.json\<close>: the file does not
  exist, \<^verbatim>\<open>open\<close> or the read raises \<^verbatim>\<open>IOError\<close>, \<^verbatim>\<open>json.load\<close> raises
  \<^verbatim>\<open>JSONDecodeError\<close>, or \<^verbatim>\<open>json.load\<close> returns a document. For the key file: it does
  not exist, the read raises \<^verbatim>\<open>IOError\<close>, or it has a text.
\<close>

datatype json_file = Missing | Unreadable | Malformed | Parsed json

datatype text_file = NoFile | ReadError | Text string

record files =
  NODE_CONFIG_FILE :: json_file
  SSH_PUBLIC_KEY_PATH :: text_file

section \<open>The Proxmox cluster behind the client (proxmox\_api.py)\<close>

text \<open>
  The remote side is a value that the API functions read and change. \<open>client_error\<close> is
  the way \<^verbatim>\<open>get_proxmox_client\<close> fails (\<open>None\<close> when it returns a client): with a
  \<^verbatim>\<open>ConfigurationError\<close> when the connection settings are missing, with a
  \<^verbatim>\<open>ProxmoxError\<close> when the connection cannot be made. \<open>nodes_get\<close> and
  \<open>qemu_get\<close> are the \<^verbatim>\<open>"node"\<close> and \<^verbatim>\<open>"vmid"\<close> fields of the two listings;
  \<open>config_get\<close> and \<open>status_get\<close> are the attribute map and the status map of a VM. In
  each of them \<open>None\<close> stands for a \<^verbatim>\<open>ResourceException\<close>. The two \<open>fails\<close> fields say
  which writes and which power requests the cluster refuses. \<open>calls\<close> records, in
  order, every write and every power request sent, refused or not.
\<close>

datatype client_failure = MissingSettings | ConnectionFailed

fun raised :: "client_failure \<Rightarrow> error" where
  "raised MissingSettings = ConfigurationError"
| "raised ConnectionFailed = ProxmoxError"

datatype remote_call =
    ConfigPut string int "(string \<times> json) list"
  | StatusPost string int string

record world =
  client_error :: "client_failure option"
  nodes_get :: "string list option"
  qemu_get :: "string \<Rightarrow> int list option"
  config_get :: "string \<times> int \<Rightarrow> (string \<times> json) list option"
  status_get :: "string \<times> int \<Rightarrow> (string \<times> json) list option"
  config_put_fails :: "string \<times> int \<Rightarrow> bool"
  status_post_fails :: "string \<times> int \<Rightarrow> string \<Rightarrow> bool"
  calls :: "remote_call list"

definition get_proxmox_cluster_nodes :: "world \<Rightarrow> error + string list" where
  "get_proxmox_cluster_nodes w =
     (case client_error w of
        Some e \<Rightarrow> Inl (raised e)
      | None \<Rightarrow>
          (case nodes_get w of
             None \<Rightarrow> Inl ProxmoxError
           | Some ns \<Rightarrow> Inr (sort ns)))"

text \<open>A \<^verbatim>\<open>ResourceException\<close> while listing the VMs of a host gives the empty list.\<close>

definition get_vms_on_node :: "world \<Rightarrow> string \<Rightarrow> error + int list" where
  "get_vms_on_node w node_name =
     (case client_error w of
        Some e \<Rightarrow> Inl (raised e)
      | None \<Rightarrow>
          (case qemu_get w node_name of
             None \<Rightarrow> Inr []
           | Some ids \<Rightarrow> Inr (sort ids)))"

definition get_vm_config :: "world \<Rightarrow> string \<Rightarrow> int \<Rightarrow> error + (string \<times> json) list" where
  "get_vm_config w node_name i =
     (case client_error w of
        Some e \<Rightarrow> Inl (raised e)
      | None \<Rightarrow>
          (case config_get w (node_name, i) of
             None \<Rightarrow> Inl ProxmoxError
           | Some c \<Rightarrow> Inr c))"

definition get_vm_status :: "world \<Rightarrow> string \<Rightarrow> int \<Rightarrow> error + (string \<times> json) list" where
  "get_vm_status w node_name i =
     (case client_error w of
        Some e \<Rightarrow> Inl (raised e)
      | None \<Rightarrow>
          (case status_get w (node_name, i) of
             None \<Rightarrow> Inl ProxmoxError
           | Some sd \<Rightarrow> Inr sd))"

definition valid_actions :: "string list" where
  "valid_actions = [''start'', ''stop'', ''shutdown'', ''reboot'']"

text \<open>
  \<^verbatim>\<open>control_vm\<close>: the client first, then the check of the action name, then the request.
  The task id it returns is not used by any caller.
\<close>

definition control_vm :: "world \<Rightarrow> string \<Rightarrow> int \<Rightarrow> string \<Rightarrow> (error + unit) \<times> world" where
  "control_vm w node_name i action =
     (case client_error w of
        Some e \<Rightarrow> (Inl (raised e), w)
      | None \<Rightarrow>
          if action \<notin> set valid_actions then (Inl ValueError, w)
          else
            (let pve_api_action = (if action = ''stop'' then ''shutdown'' else action);
                 w' = w\<lparr>calls := calls w @ [StatusPost node_name i pve_api_action]\<rparr>
             in if status_post_fails w (node_name, i) pve_api_action
                then (Inl ProxmoxError, w')
                else (Inr (), w')))"

text \<open>\<^verbatim>\<open>urllib.parse.quote\<close> with its default \<^verbatim>\<open>safe='/'\<close>, on byte strings.\<close>

definition quote_safe :: "char \<Rightarrow> bool" where
  "quote_safe c =
     (let n = (of_char c :: nat) in
        (48 \<le> n \<and> n \<le> 57) \<or> (65 \<le> n \<and> n \<le> 90) \<or> (97 \<le> n \<and> n \<le> 122)
        \<or> c \<in> set ''_.-~/'')"

definition hex_digit :: "nat \<Rightarrow> char" where
  "hex_digit n = (if n < 10 then char_of (48 + n) else char_of (55 + n))"

definition quote :: "string \<Rightarrow> string" where
  "quote s =
     concat (map (\<lambda>c. if quote_safe c then [c]
                      else [CHR ''%'', hex_digit (of_char c div 16), hex_digit (of_char c mod 16)]) s)"

definition ipconfig_key :: "app_config \<Rightarrow> string" where
  "ipconfig_key cfg = ''ipconfig'' @ show_int (K3S_NODE_IPCONFIG_INDEX cfg)"

text \<open>\<^verbatim>\<open>d[k] = v\<close> on a dict kept as an association list.\<close>

fun dict_set :: "string \<Rightarrow> json \<Rightarrow> (string \<times> json) list \<Rightarrow> (string \<times> json) list" where
  "dict_set k v [] = [(k, v)]"
| "dict_set k v ((k', v') # kvs) =
     (if k = k' then (k, v) # kvs else (k', v') # dict_set k v kvs)"

text \<open>The cluster stores the attributes of a write over the ones it has.\<close>

definition dict_update :: "(string \<times> json) list \<Rightarrow> (string \<times> json) list \<Rightarrow> (string \<times> json) list" where
  "dict_update d params = foldl (\<lambda>acc kv. dict_set (fst kv) (snd kv) acc) d params"

text \<open>
  \<^verbatim>\<open>set_vm_network_config\<close>: builds the parameters and sends one write. The key may be
  any value that \<^verbatim>\<open>_get_ssh_public_key\<close> returned; \<^verbatim>\<open>quote\<close> raises \<^verbatim>\<open>TypeError\<close> on
  a truthy value that is not a string. A write to a VM that the cluster does not know
  is refused.
\<close>

definition network_params ::
  "app_config \<Rightarrow> string \<Rightarrow> string \<Rightarrow> string option \<Rightarrow> json \<Rightarrow> error + (string \<times> json) list" where
  "network_params cfg ipconfig_value nameserver_value searchdomain_value ssh_key =
     (let p1 = [(ipconfig_key cfg, JStr ipconfig_value)];
          p2 = (if nameserver_value \<noteq> [] then dict_set ''nameserver'' (JStr nameserver_value) p1
                else p1);
          p3 = (case searchdomain_value of
                  None \<Rightarrow> p2
                | Some sd \<Rightarrow> if sd \<noteq> [] then dict_set ''searchdomain'' (JStr sd) p2 else p2)
      in if py_truthy ssh_key
         then (case ssh_key of
                 JStr k \<Rightarrow> Inr (dict_set ''sshkeys'' (JStr (quote k)) p3)
               | _ \<Rightarrow> Inl TypeError)
         else Inr p3)"

definition set_vm_network_config ::
  "app_config \<Rightarrow> world \<Rightarrow> string \<Rightarrow> int \<Rightarrow> string \<Rightarrow> string \<Rightarrow> string option \<Rightarrow> json
     \<Rightarrow> (error + unit) \<times> world" where
  "set_vm_network_config cfg w node_name i ipconfig_value nameserver_value searchdomain_value ssh_key =
     (case client_error w of
        Some e \<Rightarrow> (Inl (raised e), w)
      | None \<Rightarrow>
          (case network_params cfg ipconfig_value nameserver_value searchdomain_value ssh_key of
             Inl e \<Rightarrow> (Inl e, w)
           | Inr params_to_set \<Rightarrow>
               (let w' = w\<lparr>calls := calls w @ [ConfigPut node_name i params_to_set]\<rparr>
                in (case config_get w (node_name, i) of
                      None \<Rightarrow> (Inl ProxmoxError, w')
                    | Some c \<Rightarrow>
                        if config_put_fails w (node_name, i) then (Inl ProxmoxError, w')
                        else (Inr (),
                              w'\<lparr>config_get := (config_get w)
                                    ((node_name, i) \<mapsto> dict_update c params_to_set)\<rparr>)))))"


section \<open>Loading the node lists from config.json\<close>

text \<open>
  \<^verbatim>\<open>str(v).upper()\<close> of the role field. Of the text that \<^verbatim>\<open>str\<close> gives for a list or
  a dict only the first character is kept: it is a bracket, so the text is no role name.
\<close>

fun py_str :: "json \<Rightarrow> string" where
  "py_str (JStr s) = s"
| "py_str JNull = ''None''"
| "py_str (JBool b) = (if b then ''True'' else ''False'')"
| "py_str (JInt i) = show_int i"
| "py_str (JArr xs) = ''[''"
| "py_str (JObj kvs) = ''{''"

datatype role = Server | Agent | Storage

text \<open>The chain of comparisons that picks the list a config-file entry goes to.\<close>

definition role_of :: "app_config \<Rightarrow> string \<Rightarrow> role option" where
  "role_of cfg r =
     (if r = upper (SERVER_TAG cfg) \<or> r = ''SERVER'' then Some Server
      else if r = upper (AGENT_TAG cfg) \<or> r = ''AGENT'' then Some Agent
      else if r = upper (STORAGE_TAG cfg) \<or> r = ''STORAGE'' then Some Storage
      else None)"

type_synonym loaded = "VMIdentifier list \<times> VMIdentifier list \<times> VMIdentifier list"

definition append_loaded :: "role \<Rightarrow> VMIdentifier \<Rightarrow> loaded \<Rightarrow> loaded" where
  "append_loaded r vm acc =
     (case acc of (loaded_servers, loaded_agents, loaded_storage) \<Rightarrow>
        (case r of
           Server \<Rightarrow> (loaded_servers @ [vm], loaded_agents, loaded_storage)
         | Agent \<Rightarrow> (loaded_servers, loaded_agents @ [vm], loaded_storage)
         | Storage \<Rightarrow> (loaded_servers, loaded_agents, loaded_storage @ [vm])))"

text \<open>A loop whose body may raise: the first error ends it.\<close>

fun fold_err :: "('a \<Rightarrow> 's \<Rightarrow> error + 's) \<Rightarrow> 'a list \<Rightarrow> 's \<Rightarrow> error + 's" where
  "fold_err f [] s = Inr s"
| "fold_err f (x # xs) s =
     (case f x s of
        Inl e \<Rightarrow> Inl e
      | Inr s' \<Rightarrow> fold_err f xs s')"

text \<open>
  The body of the inner loop of \<^verbatim>\<open>load_nodes_from_config_file\<close>, for one entry of a
  host's \<^verbatim>\<open>"vms"\<close>. An entry with a recognised role is appended only with a host name
  that is a string and a VM id that is an integer (\<^verbatim>\<open>True\<close> is the integer 1 for
  Python's comparison and hashing); with other truthy values the result is
  \<open>Unsupported\<close>.
\<close>

definition load_vm_entry :: "app_config \<Rightarrow> json \<Rightarrow> json \<Rightarrow> loaded \<Rightarrow> error + loaded" where
  "load_vm_entry cfg proxmox_node_id vm_info acc =
     (case py_get vm_info ''vmid'' JNull of
        Inl e \<Rightarrow> Inl e
      | Inr vmid_value \<Rightarrow>
          (case py_get vm_info ''role'' (JStr []) of
             Inl e \<Rightarrow> Inl e
           | Inr role_value \<Rightarrow>
               if \<not> py_truthy vmid_value then Inr acc
               else
                 (case role_of cfg (upper (py_str role_value)) of
                    None \<Rightarrow> Inr acc
                  | Some r \<Rightarrow>
                      (case (proxmox_node_id, vmid_value) of
                         (JStr n, JInt i) \<Rightarrow> Inr (append_loaded r (new_vm n i) acc)
                       | (JStr n, JBool b) \<Rightarrow> Inr (append_loaded r (new_vm n (if b then 1 else 0)) acc)
                       | _ \<Rightarrow> Inl Unsupported))))"

text \<open>The body of the outer loop, for one entry of \<^verbatim>\<open>"nodes"\<close>.\<close>

definition load_host_entry :: "app_config \<Rightarrow> json \<Rightarrow> loaded \<Rightarrow> error + loaded" where
  "load_host_entry cfg p_node_info acc =
     (case py_get p_node_info ''id'' JNull of
        Inl e \<Rightarrow> Inl e
      | Inr proxmox_node_id \<Rightarrow>
          if \<not> py_truthy proxmox_node_id then Inr acc
          else
            (case py_get p_node_info ''vms'' (JArr []) of
               Inl e \<Rightarrow> Inl e
             | Inr vms \<Rightarrow>
                 (case py_iter vms of
                    Inl e \<Rightarrow> Inl e
                  | Inr vm_infos \<Rightarrow> fold_err (load_vm_entry cfg proxmox_node_id) vm_infos acc)))"

definition load_entries :: "app_config \<Rightarrow> json \<Rightarrow> error + loaded" where
  "load_entries cfg data =
     (case py_get data ''nodes'' (JArr []) of
        Inl e \<Rightarrow> Inl e
      | Inr nodes \<Rightarrow>
          (case py_iter nodes of
             Inl e \<Rightarrow> Inl e
           | Inr p_node_infos \<Rightarrow> fold_err (load_host_entry cfg) p_node_infos ([], [], [])))"

text \<open>
  \<^verbatim>\<open>load_nodes_from_config_file\<close>: the returned flag with the manager after the call.
  Only the union is made unique; the three role lists are stored as they were loaded.
\<close>

definition load_nodes_from_config_file ::
  "app_config \<Rightarrow> files \<Rightarrow> manager \<Rightarrow> error + (bool \<times> manager)" where
  "load_nodes_from_config_file cfg fs m =
     (case NODE_CONFIG_FILE fs of
        Missing \<Rightarrow> Inr (False, m)
      | Unreadable \<Rightarrow> Inl ConfigurationError
      | Malformed \<Rightarrow> Inl ConfigurationError
      | Parsed data \<Rightarrow>
          (case load_entries cfg data of
             Inl e \<Rightarrow> Inl e
           | Inr (loaded_servers, loaded_agents, loaded_storage) \<Rightarrow>
               Inr (True,
                    populate_node_lists
                      (m\<lparr>servers := loaded_servers, agents := loaded_agents,
                         storage := loaded_storage,
                         all_nodes := list_set (loaded_servers @ loaded_agents @ loaded_storage)\<rparr>))))"

section \<open>Discovery by tags\<close>

text \<open>The tags of a VM: the fields of the \<^verbatim>\<open>"tags"\<close> string that are not blank, stripped.\<close>

definition parse_tags :: "string \<Rightarrow> string list" where
  "parse_tags tags_str = map strip (filter (\<lambda>tag. strip tag \<noteq> []) (split_on CHR '';'' tags_str))"

text \<open>The body of the inner loop of \<^verbatim>\<open>discover_nodes_by_tags\<close>, for one VM id of a host.\<close>

definition discover_vm :: "app_config \<Rightarrow> world \<Rightarrow> string \<Rightarrow> int \<Rightarrow> manager \<Rightarrow> error + manager" where
  "discover_vm cfg w p_node_name i m =
     (case get_vm_config w p_node_name i of
        Inl e \<Rightarrow> if e = ProxmoxError then Inr m else Inl e
      | Inr vm_config \<Rightarrow>
          (case (case map_of vm_config ''tags'' of
                   None \<Rightarrow> Inr []
                 | Some (JStr t) \<Rightarrow> Inr t
                 | Some _ \<Rightarrow> Inl AttributeError) of
             Inl e \<Rightarrow> Inl e
           | Inr tags_str \<Rightarrow>
               (let vm_tags = parse_tags tags_str in
                if vm_tags = [] then Inr m
                else
                  (let vm_identifier =
                         \<lparr>proxmox_node = p_node_name, vmid = i,
                          name = (case map_of vm_config ''name'' of None \<Rightarrow> JNull | Some v \<Rightarrow> v),
                          ip_address = None, tags = vm_tags, config = vm_config,
                          status = None\<rparr>;
                       is_server = (SERVER_TAG cfg \<in> set vm_tags);
                       is_agent = (AGENT_TAG cfg \<in> set vm_tags);
                       is_storage = (STORAGE_TAG cfg \<in> set vm_tags)
                   in if \<not> (is_server \<or> is_agent \<or> is_storage) then Inr m
                      else Inr (m\<lparr>all_nodes := all_nodes m @ [vm_identifier],
                                  servers := (if is_server then servers m @ [vm_identifier]
                                              else servers m),
                                  agents := (if is_agent then agents m @ [vm_identifier]
                                             else agents m),
                                  storage := (if is_storage then storage m @ [vm_identifier]
                                              else storage m)\<rparr>)))))"

text \<open>The body of the outer loop, for one host.\<close>

definition discover_host :: "app_config \<Rightarrow> world \<Rightarrow> string \<Rightarrow> manager \<Rightarrow> error + manager" where
  "discover_host cfg w p_node_name m =
     (case get_vms_on_node w p_node_name of
        Inl e \<Rightarrow> if e = ProxmoxError then Inr m else Inl e
      | Inr vmids_on_node \<Rightarrow> fold_err (discover_vm cfg w p_node_name) vmids_on_node m)"

text \<open>
  \<^verbatim>\<open>discover_nodes_by_tags\<close>. When the walk finds no node with a role tag the code
  only logs a warning (\<^verbatim>\<open># Not raising an error here, let the caller decide.\<close>).
\<close>

definition discover_nodes_by_tags :: "app_config \<Rightarrow> world \<Rightarrow> manager \<Rightarrow> error + manager" where
  "discover_nodes_by_tags cfg w m =
     (case get_proxmox_cluster_nodes w of
        Inl e \<Rightarrow> if e = ProxmoxError then Inl NodeDiscoveryError else Inl e
      | Inr proxmox_host_nodes \<Rightarrow>
          if proxmox_host_nodes = [] then Inl NodeDiscoveryError
          else
            (case fold_err (discover_host cfg w) proxmox_host_nodes m of
               Inl e \<Rightarrow> Inl e
             | Inr m1 \<Rightarrow>
                 Inr (populate_node_lists
                        (m1\<lparr>all_nodes := list_set (all_nodes m1),
                            servers := list_set (servers m1),
                            agents := list_set (agents m1),
                            storage := list_set (storage m1)\<rparr>))))"

text \<open>\<^verbatim>\<open>ensure_nodes_are_discovered\<close>: the config file first, then discovery.\<close>

definition ensure_nodes_are_discovered ::
  "app_config \<Rightarrow> files \<Rightarrow> world \<Rightarrow> bool \<Rightarrow> manager \<Rightarrow> error + manager" where
  "ensure_nodes_are_discovered cfg fs w discover_if_empty m =
     (if all_nodes m \<noteq> [] then Inr m
      else
        (case load_nodes_from_config_file cfg fs m of
           Inl e \<Rightarrow> Inl e
         | Inr (loaded, m1) \<Rightarrow>
             if loaded \<and> all_nodes m1 \<noteq> [] then Inr m1
             else if discover_if_empty then
               (case discover_nodes_by_tags cfg w m1 of
                  Inl e \<Rightarrow> Inl e
                | Inr m2 \<Rightarrow> if all_nodes m2 \<noteq> [] then Inr m2 else Inl NodeDiscoveryError)
             else Inl NodeDiscoveryError))"


section \<open>Power actions on the node set\<close>

text \<open>\<^verbatim>\<open>status_data.get("status", "unknown").lower()\<close>: only a string has \<^verbatim>\<open>lower\<close>.\<close>

definition read_status :: "(string \<times> json) list \<Rightarrow> error + string" where
  "read_status status_data =
     (case map_of status_data ''status'' of
        None \<Rightarrow> Inr (lower ''unknown'')
      | Some (JStr s) \<Rightarrow> Inr (lower s)
      | Some _ \<Rightarrow> Inl AttributeError)"

text \<open>
  A loop over VMs whose body changes the VM and the cluster and may raise: the result
  is the error or the VMs as the loop left them, with the cluster as it is then.
\<close>

fun loop_vms ::
  "(VMIdentifier \<Rightarrow> world \<Rightarrow> (error + VMIdentifier) \<times> world) \<Rightarrow> VMIdentifier list \<Rightarrow> world
     \<Rightarrow> (error + VMIdentifier list) \<times> world" where
  "loop_vms f [] w = (Inr [], w)"
| "loop_vms f (vm # vms) w =
     (case f vm w of
        (Inl e, w') \<Rightarrow> (Inl e, w')
      | (Inr vm', w') \<Rightarrow>
          (case loop_vms f vms w' of
             (Inl e, w'') \<Rightarrow> (Inl e, w'')
           | (Inr vms', w'') \<Rightarrow> (Inr (vm' # vms'), w'')))"

text \<open>
  The body of the loop of \<^verbatim>\<open>perform_vm_action\<close>. A \<^verbatim>\<open>ProxmoxError\<close> of the status
  fetch skips the VM; what \<^verbatim>\<open>control_vm\<close> raises is not caught here.
\<close>

definition vm_action :: "string \<Rightarrow> VMIdentifier \<Rightarrow> world \<Rightarrow> (error + VMIdentifier) \<times> world" where
  "vm_action action vm w =
     (case get_vm_status w (proxmox_node vm) (vmid vm) of
        Inl e \<Rightarrow> if e = ProxmoxError then (Inr vm, w) else (Inl e, w)
      | Inr status_data \<Rightarrow>
          (case read_status status_data of
             Inl e \<Rightarrow> (Inl e, w)
           | Inr current_status \<Rightarrow>
               (let vm' = vm\<lparr>status := Some current_status\<rparr>;
                    call = (\<lambda>a. case control_vm w (proxmox_node vm) (vmid vm) a of
                                   (Inl e, w') \<Rightarrow> (Inl e, w')
                                 | (Inr u, w') \<Rightarrow> (Inr vm', w'))
                in if action = ''start'' then
                     (if current_status = ''running'' then (Inr vm', w) else call ''start'')
                   else if action = ''stop'' then
                     (if current_status = ''stopped'' then (Inr vm', w) else call ''stop'')
                   else if action = ''restart'' then
                     (if current_status \<noteq> ''running'' then call ''start'' else call ''reboot'')
                   else (Inr vm', w))))"

text \<open>
  \<^verbatim>\<open>perform_vm_action\<close>. The VMs are changed in place; the result carries them as
  \<open>all_nodes\<close> of the manager.
\<close>

definition perform_vm_action ::
  "app_config \<Rightarrow> files \<Rightarrow> string \<Rightarrow> manager \<Rightarrow> world \<Rightarrow> (error + manager) \<times> world" where
  "perform_vm_action cfg fs action m w =
     (case ensure_nodes_are_discovered cfg fs w True m of
        Inl e \<Rightarrow> (Inl e, w)
      | Inr m1 \<Rightarrow>
          if all_nodes m1 = [] then (Inr m1, w)
          else
            (case loop_vms (vm_action action) (all_nodes m1) w of
               (Inl e, w') \<Rightarrow> (Inl e, w')
             | (Inr vms, w') \<Rightarrow> (Inr (m1\<lparr>all_nodes := vms\<rparr>), w')))"

section \<open>Resolving the SSH public key\<close>

text \<open>\<^verbatim>\<open>needle in haystack\<close> for two strings.\<close>

fun is_substring :: "string \<Rightarrow> string \<Rightarrow> bool" where
  "is_substring needle [] = (needle = [])"
| "is_substring needle (c # cs) =
     (take (length needle) (c # cs) = needle \<or> is_substring needle cs)"

text \<open>\<^verbatim>\<open>k in data\<close> and \<^verbatim>\<open>data[k]\<close> for a string \<open>k\<close> and a document \<open>data\<close>.\<close>

fun py_in :: "string \<Rightarrow> json \<Rightarrow> error + bool" where
  "py_in k (JObj kvs) = Inr (k \<in> set (map fst kvs))"
| "py_in k (JArr xs) = Inr (JStr k \<in> set xs)"
| "py_in k (JStr s) = Inr (is_substring k s)"
| "py_in k _ = Inl TypeError"

fun py_item :: "json \<Rightarrow> string \<Rightarrow> error + json" where
  "py_item (JObj kvs) k = (case map_of kvs k of None \<Rightarrow> Inl KeyError | Some v \<Rightarrow> Inr v)"
| "py_item _ k = Inl TypeError"

text \<open>
  \<^verbatim>\<open>_get_ssh_public_key\<close>; \<open>JNull\<close> is the \<^verbatim>\<open>None\<close> it returns when no source has a
  key. The environment variable and the key file are used when their content is not
  empty; the \<^verbatim>\<open>ssh_key\<close> field of the config file is returned whenever it is there.
\<close>

definition key_from_file :: "files \<Rightarrow> json" where
  "key_from_file fs =
     (case SSH_PUBLIC_KEY_PATH fs of
        NoFile \<Rightarrow> JNull
      | ReadError \<Rightarrow> JNull
      | Text t \<Rightarrow> (let key_content = strip t in
                   if key_content \<noteq> [] then JStr key_content else JNull))"

definition key_from_config_file :: "files \<Rightarrow> error + json option" where
  "key_from_config_file fs =
     (case NODE_CONFIG_FILE fs of
        Missing \<Rightarrow> Inr None
      | Unreadable \<Rightarrow> Inr None
      | Malformed \<Rightarrow> Inr None
      | Parsed data \<Rightarrow>
          (case py_in ''ssh_key'' data of
             Inl e \<Rightarrow> Inl e
           | Inr present \<Rightarrow>
               if present then
                 (case py_item data ''ssh_key'' of
                    Inl e \<Rightarrow> Inl e
                  | Inr v \<Rightarrow> Inr (Some v))
               else Inr None))"

definition get_ssh_public_key :: "app_config \<Rightarrow> files \<Rightarrow> error + json" where
  "get_ssh_public_key cfg fs =
     (if SSH_PUBLIC_KEY cfg \<noteq> None \<and> SSH_PUBLIC_KEY cfg \<noteq> Some []
      then Inr (JStr (the (SSH_PUBLIC_KEY cfg)))
      else
        (case key_from_config_file fs of
           Inl e \<Rightarrow> Inl e
         | Inr (Some v) \<Rightarrow> Inr v
         | Inr None \<Rightarrow> Inr (key_from_file fs)))"

section \<open>The IP convergence pass\<close>

text \<open>The dotted form of an address, \<^verbatim>\<open>str(ipaddress.IPv4Address(n))\<close>.\<close>

definition ipv4_str :: "int \<Rightarrow> string" where
  "ipv4_str n =
     show_int (n div 16777216 mod 256) @ ''.'' @ show_int (n div 65536 mod 256) @ ''.''
     @ show_int (n div 256 mod 256) @ ''.'' @ show_int (n mod 256)"

text \<open>The local variables that the loop of \<^verbatim>\<open>configure_vms\<close> carries from VM to VM.\<close>

record conv_state =
  next_ip_to_assign_int :: int
  modified_vms :: "VMIdentifier list"
  running_modified_vms :: "VMIdentifier list"

definition target_ipconfig_value :: "app_config \<Rightarrow> int \<Rightarrow> string" where
  "target_ipconfig_value cfg n =
     ''ip='' @ ipv4_str n @ ''/'' @ K3S_NODE_CIDR cfg @ '',gw='' @ K3S_NODE_GATEWAY cfg"

definition target_nameserver_value :: "app_config \<Rightarrow> string" where
  "target_nameserver_value cfg = join '' '' (K3S_NODE_DNS_SERVERS cfg)"

text \<open>\<^verbatim>\<open>vm.config.get(k, "")\<close>.\<close>

definition config_value :: "(string \<times> json) list \<Rightarrow> string \<Rightarrow> json" where
  "config_value c k = (case map_of c k of None \<Rightarrow> JStr [] | Some v \<Rightarrow> v)"

text \<open>The idempotency check: the value of \<^verbatim>\<open>needs_update\<close> when the writes begin.\<close>

definition needs_update :: "app_config \<Rightarrow> bool \<Rightarrow> int \<Rightarrow> (string \<times> json) list \<Rightarrow> bool" where
  "needs_update cfg force n c =
     (let current_ipconfig_value = config_value c (ipconfig_key cfg);
          current_nameserver_value = config_value c ''nameserver'';
          current_searchdomain_value = config_value c ''searchdomain'';
          needs0 = force
      in if \<not> needs0 then
           (let needs1 = (if current_ipconfig_value \<noteq> JStr (target_ipconfig_value cfg n)
                          then True else needs0);
                needs2 = (if target_nameserver_value cfg \<noteq> []
                             \<and> current_nameserver_value \<noteq> JStr (target_nameserver_value cfg)
                          then True else needs1);
                needs3 = (if (case K3S_NODE_SEARCH_DOMAIN cfg of
                                None \<Rightarrow> False
                              | Some sd \<Rightarrow> sd \<noteq> [] \<and> current_searchdomain_value \<noteq> JStr sd)
                          then True else needs2)
            in needs3)
         else needs0)"

text \<open>The first step of the loop body: the status, \<^verbatim>\<open>unknown\<close> when it cannot be read.\<close>

definition fetch_status :: "VMIdentifier \<Rightarrow> world \<Rightarrow> error + VMIdentifier" where
  "fetch_status vm w =
     (case get_vm_status w (proxmox_node vm) (vmid vm) of
        Inl e \<Rightarrow> if e = ProxmoxError then Inr (vm\<lparr>status := Some ''unknown''\<rparr>) else Inl e
      | Inr status_data \<Rightarrow>
          (case read_status status_data of
             Inl e \<Rightarrow> Inl e
           | Inr current_status \<Rightarrow> Inr (vm\<lparr>status := Some current_status\<rparr>)))"

text \<open>
  The second step: the attribute map is fetched unless the VM has one with the
  network-config key. \<open>None\<close> is the \<^verbatim>\<open>continue\<close> after a \<^verbatim>\<open>ProxmoxError\<close>.
\<close>

definition fetch_config :: "app_config \<Rightarrow> VMIdentifier \<Rightarrow> world \<Rightarrow> error + VMIdentifier option" where
  "fetch_config cfg vm w =
     (if config vm = [] \<or> ipconfig_key cfg \<notin> set (map fst (config vm)) then
        (case get_vm_config w (proxmox_node vm) (vmid vm) of
           Inl e \<Rightarrow> if e = ProxmoxError then Inr None else Inl e
         | Inr c \<Rightarrow>
             Inr (Some (vm\<lparr>config := c,
                           name := (case map_of c ''name'' of None \<Rightarrow> name vm | Some v \<Rightarrow> v)\<rparr>)))
      else Inr (Some vm))"

text \<open>
  The rest of the body, from the test of the cursor against the end of the range to
  the increment of the cursor.
\<close>

definition assign_ip ::
  "app_config \<Rightarrow> json \<Rightarrow> bool \<Rightarrow> int \<Rightarrow> VMIdentifier \<Rightarrow> conv_state \<Rightarrow> world
     \<Rightarrow> (error + conv_state) \<times> world" where
  "assign_ip cfg ssh_key force ip_range_end_int vm st w =
     (if next_ip_to_assign_int st > ip_range_end_int then (Inr st, w)
      else if \<not> needs_update cfg force (next_ip_to_assign_int st) (config vm) then
        (Inr (st\<lparr>next_ip_to_assign_int := next_ip_to_assign_int st + 1\<rparr>), w)
      else
        (case set_vm_network_config cfg w (proxmox_node vm) (vmid vm)
                (target_ipconfig_value cfg (next_ip_to_assign_int st))
                (target_nameserver_value cfg) (K3S_NODE_SEARCH_DOMAIN cfg) ssh_key of
           (Inr u, w') \<Rightarrow>
             (Inr (st\<lparr>modified_vms := modified_vms st @ [vm],
                      running_modified_vms :=
                        (if status vm = Some ''running'' then running_modified_vms st @ [vm]
                         else running_modified_vms st),
                      next_ip_to_assign_int := next_ip_to_assign_int st + 1\<rparr>), w')
         | (Inl e, w') \<Rightarrow>
             if e = ProxmoxError
             then (Inr (st\<lparr>next_ip_to_assign_int := next_ip_to_assign_int st + 1\<rparr>), w')
             else (Inl e, w')))"

text \<open>The whole body of the loop, for one VM.\<close>

definition configure_vm ::
  "app_config \<Rightarrow> json \<Rightarrow> bool \<Rightarrow> int \<Rightarrow> VMIdentifier \<Rightarrow> conv_state \<Rightarrow> world
     \<Rightarrow> (error + VMIdentifier \<times> conv_state) \<times> world" where
  "configure_vm cfg ssh_key force ip_range_end_int vm st w =
     (case fetch_status vm w of
        Inl e \<Rightarrow> (Inl e, w)
      | Inr vm1 \<Rightarrow>
          (case fetch_config cfg vm1 w of
             Inl e \<Rightarrow> (Inl e, w)
           | Inr None \<Rightarrow> (Inr (vm1, st), w)
           | Inr (Some vm2) \<Rightarrow>
               (case assign_ip cfg ssh_key force ip_range_end_int vm2 st w of
                  (Inl e, w') \<Rightarrow> (Inl e, w')
                | (Inr st', w') \<Rightarrow> (Inr (vm2, st'), w'))))"

text \<open>The loop over the sorted nodes; the VMs come back as the loop changed them.\<close>

fun configure_loop ::
  "app_config \<Rightarrow> json \<Rightarrow> bool \<Rightarrow> int \<Rightarrow> VMIdentifier list \<Rightarrow> conv_state \<Rightarrow> world
     \<Rightarrow> (error + VMIdentifier list \<times> conv_state) \<times> world" where
  "configure_loop cfg ssh_key force ip_range_end_int [] st w = (Inr ([], st), w)"
| "configure_loop cfg ssh_key force ip_range_end_int (vm # vms) st w =
     (case configure_vm cfg ssh_key force ip_range_end_int vm st w of
        (Inl e, w') \<Rightarrow> (Inl e, w')
      | (Inr (vm', st'), w') \<Rightarrow>
          (case configure_loop cfg ssh_key force ip_range_end_int vms st' w' of
             (Inl e, w'') \<Rightarrow> (Inl e, w'')
           | (Inr (vms', st''), w'') \<Rightarrow> (Inr (vm' # vms', st''), w'')))"

text \<open>
  The restart loop at the end of \<^verbatim>\<open>configure_vms\<close>: a \<^verbatim>\<open>ProxmoxError\<close> of one
  restart is logged and the loop goes on; any other exception leaves the loop.
\<close>

fun restart_modified :: "VMIdentifier list \<Rightarrow> world \<Rightarrow> (error + unit) \<times> world" where
  "restart_modified [] w = (Inr (), w)"
| "restart_modified (vm # vms) w =
     (case control_vm w (proxmox_node vm) (vmid vm) ''restart'' of
        (Inl e, w') \<Rightarrow> if e = ProxmoxError then restart_modified vms w' else (Inl e, w')
      | (Inr u, w') \<Rightarrow> restart_modified vms w')"

definition initial_state :: "int \<Rightarrow> conv_state" where
  "initial_state start =
     \<lparr>next_ip_to_assign_int = start, modified_vms = [], running_modified_vms = []\<rparr>"

text \<open>
  The pass over a list of nodes, after the nodes are known and the key is resolved:
  the range is read, the nodes are sorted, the loop runs, and the modified VMs are
  restarted when \<open>restart_after\<close> is set. The result is the state of the loop at its
  end.
\<close>

definition converge ::
  "app_config \<Rightarrow> json \<Rightarrow> bool \<Rightarrow> bool \<Rightarrow> VMIdentifier list \<Rightarrow> world
     \<Rightarrow> (error + conv_state) \<times> world" where
  "converge cfg ssh_key restart_after force nodes w =
     (case (K3S_NODE_IP_RANGE_START cfg, K3S_NODE_IP_RANGE_END cfg) of
        (Some ip_range_start_obj, Some ip_range_end_obj) \<Rightarrow>
          (case configure_loop cfg ssh_key force (uint ip_range_end_obj)
                  (sort_key vm_key nodes) (initial_state (uint ip_range_start_obj)) w of
             (Inl e, w') \<Rightarrow> (Inl e, w')
           | (Inr (vms, st), w') \<Rightarrow>
               if modified_vms st \<noteq> [] \<and> restart_after then
                 (case restart_modified (modified_vms st) w' of
                    (Inl e, w'') \<Rightarrow> (Inl e, w'')
                  | (Inr u, w'') \<Rightarrow> (Inr st, w''))
               else (Inr st, w'))
      | _ \<Rightarrow> (Inl ConfigurationError, w))"

text \<open>
  \<^verbatim>\<open>configure_vms\<close>: \<open>None\<close> is the early return when there is no node to configure.
\<close>

definition configure_vms ::
  "app_config \<Rightarrow> files \<Rightarrow> bool \<Rightarrow> bool \<Rightarrow> manager \<Rightarrow> world
     \<Rightarrow> (error + conv_state option) \<times> world" where
  "configure_vms cfg fs restart_after force m w =
     (case ensure_nodes_are_discovered cfg fs w True m of
        Inl e \<Rightarrow> (Inl e, w)
      | Inr m1 \<Rightarrow>
          if all_nodes m1 = [] then (Inr None, w)
          else
            (case get_ssh_public_key cfg fs of
               Inl e \<Rightarrow> (Inl e, w)
             | Inr ssh_key \<Rightarrow>
                 (case converge cfg ssh_key restart_after force (all_nodes m1) w of
                    (Inl e, w') \<Rightarrow> (Inl e, w')
                  | (Inr st, w') \<Rightarrow> (Inr (Some st), w'))))"


section \<open>The specification's tables, and notions used to state the properties\<close>

text \<open>
  The transition table of the lifecycle controller as the specification gives it: the
  request sent for an action and a current status, \<open>None\<close> for a no-op.
\<close>

definition lifecycle_effect :: "string \<Rightarrow> string \<Rightarrow> string option" where
  "lifecycle_effect action current_status =
     (if action = ''start'' then
        (if current_status = ''running'' then None else Some ''start'')
      else if action = ''stop'' then
        (if current_status = ''stopped'' then None else Some ''shutdown'')
      else if action = ''restart'' then
        (if current_status = ''running'' then Some ''reboot'' else Some ''start'')
      else None)"




text \<open>The cursor at the end of a loop that completed.\<close>

definition final_cursor :: "(error + VMIdentifier list \<times> conv_state) \<times> world \<Rightarrow> int option" where
  "final_cursor r =
     (case fst r of
        Inl e \<Rightarrow> None
      | Inr (vms, st) \<Rightarrow> Some (next_ip_to_assign_int st))"

text \<open>
  The VM gets past the second step of the loop body: it carries an attribute map with
  the network-config key, or the cluster returns one.
\<close>

definition config_available :: "app_config \<Rightarrow> world \<Rightarrow> VMIdentifier \<Rightarrow> bool" where
  "config_available cfg w vm =
     (case fetch_config cfg vm w of
        Inr (Some vm') \<Rightarrow> True
      | _ \<Rightarrow> False)"


text \<open>The modification ledger that a pass returns, when it returns one.\<close>

definition ledger :: "(error + conv_state) \<times> world \<Rightarrow> VMIdentifier list option" where
  "ledger r =
     (case fst r of
        Inl e \<Rightarrow> None
      | Inr st \<Rightarrow> Some (modified_vms st))"

definition power_requests :: "world \<Rightarrow> remote_call list" where
  "power_requests w = filter (\<lambda>c. case c of StatusPost n i a \<Rightarrow> True | _ \<Rightarrow> False) (calls w)"




text \<open>
  Two states of the cluster that differ at most in the attribute maps they hold and in
  the calls recorded: the same client, listings, statuses and refusals, and an
  attribute map for the same VMs.
\<close>

definition same_cluster :: "world \<Rightarrow> world \<Rightarrow> bool" where
  "same_cluster w w' \<longleftrightarrow>
     client_error w' = client_error w \<and> nodes_get w' = nodes_get w \<and> qemu_get w' = qemu_get w
     \<and> status_get w' = status_get w \<and> config_put_fails w' = config_put_fails w
     \<and> status_post_fails w' = status_post_fails w
     \<and> (\<forall>k. config_get w' k = None \<longleftrightarrow> config_get w k = None)"


text \<open>
  The requests that the transition table asks for one VM of a lifecycle action: none
  when its status cannot be read, otherwise the request for its current status.
\<close>

definition table_requests :: "string \<Rightarrow> world \<Rightarrow> VMIdentifier \<Rightarrow> remote_call list" where
  "table_requests action w vm =
     (case get_vm_status w (proxmox_node vm) (vmid vm) of
        Inl e \<Rightarrow> []
      | Inr status_data \<Rightarrow>
          (case read_status status_data of
             Inl e \<Rightarrow> []
           | Inr current_status \<Rightarrow>
               (case lifecycle_effect action current_status of
                  None \<Rightarrow> []
                | Some request \<Rightarrow> [StatusPost (proxmox_node vm) (vmid vm) request])))"


section \<open>Example data\<close>

definition vm100 :: VMIdentifier where
  "vm100 = new_vm ''pve1'' 100"

definition vm101 :: VMIdentifier where
  "vm101 = new_vm ''pve1'' 101"

definition vm200 :: VMIdentifier where
  "vm200 = new_vm ''pve2'' 200"

text \<open>
  A cluster with one host and two tagged VMs, one running and one stopped, neither of
  them configured yet.
\<close>

definition example_world :: world where
  "example_world =
     \<lparr>client_error = None,
      nodes_get = Some [''pve1''],
      qemu_get = (\<lambda>n. if n = ''pve1'' then Some [101, 100] else None),
      config_get =
        (\<lambda>k. if k = (''pve1'', 100)
              then Some [(''name'', JStr ''k3s-a''), (''tags'', JStr ''k3s-server'')]
              else if k = (''pve1'', 101)
              then Some [(''name'', JStr ''k3s-b''), (''tags'', JStr ''k3s-agent'')]
              else None),
      status_get =
        (\<lambda>k. if k = (''pve1'', 100) then Some [(''status'', JStr ''running'')]
              else if k = (''pve1'', 101) then Some [(''status'', JStr ''stopped'')]
              else None),
      config_put_fails = (\<lambda>k. False),
      status_post_fails = (\<lambda>k a. False),
      calls = []\<rparr>"

text \<open>The two VMs as a pass over \<open>example_world\<close> leaves them in memory.\<close>

definition vm100_seen :: VMIdentifier where
  "vm100_seen =
     vm100\<lparr>name := JStr ''k3s-a'',
            config := [(''name'', JStr ''k3s-a''), (''tags'', JStr ''k3s-server'')],
            status := Some ''running''\<rparr>"

definition vm101_seen :: VMIdentifier where
  "vm101_seen =
     vm101\<lparr>name := JStr ''k3s-b'',
            config := [(''name'', JStr ''k3s-b''), (''tags'', JStr ''k3s-agent'')],
            status := Some ''stopped''\<rparr>"

text \<open>The same cluster when the first VM already holds the target for the first address.\<close>

definition configured_attributes :: "(string \<times> json) list" where
  "configured_attributes =
     [(''name'', JStr ''k3s-a''), (''tags'', JStr ''k3s-server''),
      (''ipconfig0'', JStr ''ip=10.10.0.201/24,gw=10.10.0.1''),
      (''nameserver'', JStr ''10.10.0.1''),
      (''searchdomain'', JStr ''lan.home.vwn.io'')]"

definition configured_world :: world where
  "configured_world =
     example_world\<lparr>config_get :=
       (\<lambda>k. if k = (''pve1'', 100) then Some configured_attributes else None)\<rparr>"

definition vm100_configured :: VMIdentifier where
  "vm100_configured =
     vm100\<lparr>name := JStr ''k3s-a'', config := configured_attributes, status := Some ''running''\<rparr>"

text \<open>
  A cluster whose only VM has a network configuration by DHCP, and that VM as discovery
  by tags builds it, with the attribute map the cluster holds.
\<close>

definition dhcp_attributes :: "(string \<times> json) list" where
  "dhcp_attributes =
     [(''name'', JStr ''k3s-a''), (''tags'', JStr ''k3s-server''), (''ipconfig0'', JStr ''ip=dhcp'')]"

definition dhcp_world :: world where
  "dhcp_world =
     example_world\<lparr>config_get :=
       (\<lambda>k. if k = (''pve1'', 100) then Some dhcp_attributes else None)\<rparr>"

definition vm100_dhcp :: VMIdentifier where
  "vm100_dhcp =
     vm100\<lparr>name := JStr ''k3s-a'', tags := [''k3s-server''], config := dhcp_attributes\<rparr>"

text \<open>That VM as a pass leaves it in memory: the status is set, the attribute map is kept.\<close>

definition vm100_dhcp_seen :: VMIdentifier where
  "vm100_dhcp_seen = vm100_dhcp\<lparr>status := Some ''running''\<rparr>"

text \<open>A manager that knows the two VMs of \<open>example_world\<close>.\<close>

definition lifecycle_manager :: manager where
  "lifecycle_manager = init_manager\<lparr>all_nodes := [vm100, vm101]\<rparr>"

text \<open>A manager whose four lists hold nodes out of order.\<close>

definition unsorted_manager :: manager where
  "unsorted_manager =
     init_manager\<lparr>servers := [vm200, vm101, vm100], agents := [vm101, vm100],
                  storage := [vm200, vm100], all_nodes := [vm200, vm101, vm100]\<rparr>"

text \<open>A cluster with one host whose VMs carry no role tag.\<close>

definition untagged_world :: world where
  "untagged_world =
     \<lparr>client_error = None,
      nodes_get = Some [''pve1''],
      qemu_get = (\<lambda>n. if n = ''pve1'' then Some [100] else None),
      config_get =
        (\<lambda>k. if k = (''pve1'', 100) then Some [(''name'', JStr ''db''), (''tags'', JStr ''web; prod'')]
              else None),
      status_get = (\<lambda>k. None),
      config_put_fails = (\<lambda>k. False),
      status_post_fails = (\<lambda>k a. False),
      calls = []\<rparr>"

definition no_files :: files where
  "no_files = \<lparr>NODE_CONFIG_FILE = Missing, SSH_PUBLIC_KEY_PATH = NoFile\<rparr>"

text \<open>A \<^verbatim>\<open>config.json\<close> that holds a JSON list instead of an object.\<close>

definition list_files :: files where
  "list_files = \<lparr>NODE_CONFIG_FILE = Parsed (JArr []), SSH_PUBLIC_KEY_PATH = NoFile\<rparr>"

text \<open>A \<^verbatim>\<open>config.json\<close> with an empty \<^verbatim>\<open>ssh_key\<close>, beside a key file with a key.\<close>

definition empty_key_files :: files where
  "empty_key_files =
     \<lparr>NODE_CONFIG_FILE = Parsed (JObj [(''ssh_key'', JStr [])]),
      SSH_PUBLIC_KEY_PATH = Text ''ssh-ed25519 AAAAC3Nz admin@lan''\<rparr>"

text \<open>A \<^verbatim>\<open>config.json\<close> whose only VM entry has the id 0 and the role of a server.\<close>

definition zero_vmid_document :: json where
  "zero_vmid_document =
     JObj [(''nodes'',
            JArr [JObj [(''id'', JStr ''pve1''),
                        (''vms'', JArr [JObj [(''vmid'', JInt 0), (''role'', JStr ''SERVER'')]])]])]"


section \<open>Evaluating the examples\<close>

lemma digit_chars:
  "char_of (48::nat) = CHR ''0''" "char_of (49::nat) = CHR ''1''" "char_of (50::nat) = CHR ''2''"
  "char_of (51::nat) = CHR ''3''" "char_of (52::nat) = CHR ''4''" "char_of (53::nat) = CHR ''5''"
  "char_of (54::nat) = CHR ''6''" "char_of (55::nat) = CHR ''7''" "char_of (56::nat) = CHR ''8''"
  "char_of (57::nat) = CHR ''9''"
  by code_simp+

lemmas run_defs = digit_chars default_config_def vm100_def vm101_def vm200_def new_vm_def example_world_def vm_key_def
      configure_vm_def fetch_status_def fetch_config_def assign_ip_def get_vm_status_def get_vm_config_def read_status_def
      lower_def lower_char_def initial_state_def needs_update_def config_value_def ipconfig_key_def show_int_def
      target_ipconfig_value_def target_nameserver_value_def set_vm_network_config_def network_params_def Let_def
      ipv4_str_def dict_update_def vm100_seen_def vm101_seen_def configured_world_def configured_attributes_def
      vm100_configured_def

lemmas run2_defs = run_defs dhcp_world_def dhcp_attributes_def vm100_dhcp_def vm100_dhcp_seen_def
  lifecycle_manager_def init_manager_def

section \<open>Node lists: ordering and master selection\<close>

lemma filter_key_single:
  "distinct (map f xs) \<Longrightarrow> k \<in> set xs \<Longrightarrow> filter (\<lambda>x. f k = f x) xs = [k]"
proof (induction xs)
  case Nil
  then show ?case by simp
next
  case (Cons a xs)
  show ?case
  proof (cases "a = k")
    case True
    have "\<forall>x\<in>set xs. f k \<noteq> f x"
      using Cons.prems(1) True by auto
    then have "filter (\<lambda>x. f k = f x) xs = []"
      by (simp add: filter_empty_conv)
    then show ?thesis
      using True by simp
  next
    case False
    then have kin: "k \<in> set xs"
      using Cons.prems(2) by simp
    then have "f a \<noteq> f k"
      using Cons.prems(1) by auto
    then show ?thesis
      using Cons.IH Cons.prems(1) kin by simp
  qed
qed

text \<open>
  Two lists with the same elements and no repeated key have the same sorted list: the
  order in which the elements were found does not matter.
\<close>

lemma sort_key_same_elements:
  assumes "mset xs = mset ys" and "distinct (map f xs)"
  shows "sort_key f xs = sort_key f ys"
proof (rule properties_for_sort_key)
  show "mset (sort_key f ys) = mset xs"
    using assms(1) by simp
  show "sorted (map f (sort_key f ys))"
    by simp
next
  fix k
  assume k: "k \<in> set (sort_key f ys)"
  have "mset (map f (sort_key f ys)) = mset (map f xs)"
    using assms(1) by simp
  then have ds: "distinct (map f (sort_key f ys))"
    using assms(2) by (metis mset_eq_imp_distinct_iff)
  have "set xs = set ys"
    using assms(1) by (rule mset_eq_setD)
  then have "k \<in> set xs"
    using k by simp
  then have "filter (\<lambda>x. f k = f x) xs = [k]"
    using assms(2) by (simp add: filter_key_single)
  moreover have "filter (\<lambda>x. f k = f x) (sort_key f ys) = [k]"
    using ds k by (rule filter_key_single)
  ultimately show "filter (\<lambda>x. f k = f x) (sort_key f ys) = filter (\<lambda>x. f k = f x) xs"
    by simp
qed

lemma populate_servers: "servers (populate_node_lists m) = sort_key vm_key (servers m)"
  by (simp add: populate_node_lists_def Let_def split: list.splits)

lemma populate_agents: "agents (populate_node_lists m) = sort_key vm_key (agents m)"
  by (simp add: populate_node_lists_def Let_def split: list.splits)

lemma populate_storage: "storage (populate_node_lists m) = sort_key vm_key (storage m)"
  by (simp add: populate_node_lists_def Let_def split: list.splits)

lemma populate_all_nodes: "all_nodes (populate_node_lists m) = sort_key vm_key (all_nodes m)"
  by (simp add: populate_node_lists_def Let_def split: list.splits)

lemma populate_master:
  "server_master (populate_node_lists m) =
     (case sort_key vm_key (servers m) of [] \<Rightarrow> None | s # rest \<Rightarrow> Some s)"
  by (simp add: populate_node_lists_def Let_def split: list.splits)

lemma populate_no_first:
  "servers_no_first (populate_node_lists m) = tl (sort_key vm_key (servers m))"
  by (simp add: populate_node_lists_def Let_def split: list.splits)

text \<open>
  Claim C6. After \<^verbatim>\<open>_populate_node_lists\<close> each of the four lists holds the nodes it
  held, sorted ascending by (host-node name, VM id). For servers with distinct
  (host-node, VM id) pairs the
  sorted server list has the same elements in strictly ascending order; the master is its
  first element and is absent exactly when there is no server; the non-master servers
  are the rest of the sorted list; and any manager holding the same servers, in
  whatever order, gets the same master and the same non-master servers.
\<close>

theorem populate_node_lists_sorted_master:
  assumes "distinct (map vm_key (servers m))"
  shows "sorted (map vm_key (all_nodes (populate_node_lists m)))
         \<and> sorted (map vm_key (servers (populate_node_lists m)))
         \<and> sorted (map vm_key (agents (populate_node_lists m)))
         \<and> sorted (map vm_key (storage (populate_node_lists m)))
         \<and> mset (all_nodes (populate_node_lists m)) = mset (all_nodes m)
         \<and> mset (servers (populate_node_lists m)) = mset (servers m)
         \<and> mset (agents (populate_node_lists m)) = mset (agents m)
         \<and> mset (storage (populate_node_lists m)) = mset (storage m)
         \<and> sorted_wrt (<) (map vm_key (servers (populate_node_lists m)))
         \<and> server_master (populate_node_lists m) =
             (if servers (populate_node_lists m) = [] then None
              else Some (hd (servers (populate_node_lists m))))
         \<and> (server_master (populate_node_lists m) = None \<longleftrightarrow> servers m = [])
         \<and> servers_no_first (populate_node_lists m) = tl (servers (populate_node_lists m))
         \<and> (\<forall>m2. mset (servers m2) = mset (servers m) \<longrightarrow>
               server_master (populate_node_lists m2) = server_master (populate_node_lists m)
               \<and> servers_no_first (populate_node_lists m2) =
                   servers_no_first (populate_node_lists m))"
proof -
  let ?m' = "populate_node_lists m"
  have a: "sorted (map vm_key (all_nodes ?m'))" "sorted (map vm_key (servers ?m'))"
    "sorted (map vm_key (agents ?m'))" "sorted (map vm_key (storage ?m'))"
    by (simp_all add: populate_servers populate_agents populate_storage populate_all_nodes)
  have b: "mset (servers ?m') = mset (servers m)"
    by (simp add: populate_servers)
  have h: "mset (all_nodes ?m') = mset (all_nodes m)" "mset (agents ?m') = mset (agents m)"
    "mset (storage ?m') = mset (storage m)"
    by (simp_all add: populate_all_nodes populate_agents populate_storage)
  have "mset (map vm_key (servers ?m')) = mset (map vm_key (servers m))"
    by (simp add: populate_servers)
  then have "distinct (map vm_key (servers ?m'))"
    using assms by (metis mset_eq_imp_distinct_iff)
  then have c: "sorted_wrt (<) (map vm_key (servers ?m'))"
    using a(2) by (simp add: strict_sorted_iff)
  have d: "server_master ?m' = (if servers ?m' = [] then None else Some (hd (servers ?m')))"
    by (simp add: populate_servers populate_master split: list.splits)
  have e: "server_master ?m' = None \<longleftrightarrow> servers m = []"
    by (simp add: populate_master split: list.splits)
       (metis list.distinct(1) set_empty set_sort)
  have f: "servers_no_first ?m' = tl (servers ?m')"
    by (simp add: populate_servers populate_no_first)
  have g: "server_master (populate_node_lists m2) = server_master ?m'
           \<and> servers_no_first (populate_node_lists m2) = servers_no_first ?m'"
    if "mset (servers m2) = mset (servers m)" for m2
  proof -
    have "sort_key vm_key (servers m) = sort_key vm_key (servers m2)"
      using that assms by (intro sort_key_same_elements) simp_all
    then show ?thesis
      by (simp add: populate_master populate_no_first)
  qed
  show ?thesis
    using a b c d e f g h by blast
qed

theorem populate_node_lists_sorted_master_witness:
  "distinct (map vm_key (servers unsorted_manager))
   \<and> mset (servers (unsorted_manager\<lparr>servers := [vm100, vm200, vm101]\<rparr>))
       = mset (servers unsorted_manager)
   \<and> all_nodes (populate_node_lists unsorted_manager) = [vm100, vm101, vm200]
   \<and> servers (populate_node_lists unsorted_manager) = [vm100, vm101, vm200]
   \<and> agents (populate_node_lists unsorted_manager) = [vm100, vm101]
   \<and> storage (populate_node_lists unsorted_manager) = [vm100, vm200]
   \<and> server_master (populate_node_lists unsorted_manager) = Some vm100
   \<and> server_master (populate_node_lists (unsorted_manager\<lparr>servers := [vm100, vm200, vm101]\<rparr>))
       = Some vm100
   \<and> servers_no_first (populate_node_lists unsorted_manager) = [vm101, vm200]"
proof -
  have d: "distinct (map vm_key (servers unsorted_manager))"
    by (simp add: unsorted_manager_def vm_key_def vm100_def vm101_def vm200_def new_vm_def)
  have e: "mset (servers (unsorted_manager\<lparr>servers := [vm100, vm200, vm101]\<rparr>))
             = mset (servers unsorted_manager)"
    by (simp add: unsorted_manager_def add.commute)
  have s: "servers (populate_node_lists unsorted_manager) = [vm100, vm101, vm200]"
    "all_nodes (populate_node_lists unsorted_manager) = [vm100, vm101, vm200]"
    "agents (populate_node_lists unsorted_manager) = [vm100, vm101]"
    "storage (populate_node_lists unsorted_manager) = [vm100, vm200]"
    by (simp_all add: populate_servers populate_all_nodes populate_agents populate_storage
          unsorted_manager_def vm_key_def vm100_def vm101_def vm200_def new_vm_def)
  from populate_node_lists_sorted_master [OF d] e s d show ?thesis
    by simp
qed

section \<open>Power actions: the transition table\<close>

lemma control_vm_calls:
  "client_error w = None \<Longrightarrow> a \<in> set valid_actions \<Longrightarrow>
   calls (snd (control_vm w n i a)) =
     calls w @ [StatusPost n i (if a = ''stop'' then ''shutdown'' else a)]"
  by (simp add: control_vm_def Let_def)

lemma vm_action_request:
  assumes "get_vm_status w (proxmox_node vm) (vmid vm) = Inr status_data"
    and "read_status status_data = Inr current_status"
  shows "calls (snd (vm_action action vm w)) =
           calls w @
           (case lifecycle_effect action current_status of
              None \<Rightarrow> []
            | Some request \<Rightarrow> [StatusPost (proxmox_node vm) (vmid vm) request])"
proof -
  have cl: "client_error w = None"
    using assms(1) by (auto simp: get_vm_status_def split: option.splits)
  have v: "''start'' \<in> set valid_actions" "''stop'' \<in> set valid_actions"
    "''reboot'' \<in> set valid_actions"
    by (simp_all add: valid_actions_def)
  note c = control_vm_calls [OF cl]
  have s: "calls (snd (case control_vm w n i a of
                         (Inl e, w') \<Rightarrow> (Inl e, w')
                       | (Inr u, w') \<Rightarrow> (Inr x, w')))
             = calls (snd (control_vm w n i a))" for n i a and x :: VMIdentifier
    by (cases "control_vm w n i a") (auto split: sum.splits)
  show ?thesis
    using assms c [OF v(1)] c [OF v(2)] c [OF v(3)]
    by (simp add: vm_action_def lifecycle_effect_def Let_def s)
qed

lemma control_vm_world: "control_vm w n i a = (r, w') \<Longrightarrow> \<exists>cs. w' = w\<lparr>calls := cs\<rparr>"
proof (cases "w' = w")
  case True
  assume "control_vm w n i a = (r, w')"
  have "w' = w\<lparr>calls := calls w\<rparr>" using True by simp
  then show ?thesis by blast
next
  case False
  assume "control_vm w n i a = (r, w')"
  then show ?thesis using False
    by (auto simp: control_vm_def Let_def split: option.splits if_splits)
qed

lemma vm_action_world: "\<exists>cs. snd (vm_action action vm w) = w\<lparr>calls := cs\<rparr>"
proof -
  have wid: "\<exists>cs. w = w\<lparr>calls := cs\<rparr>"
    by (rule exI [of _ "calls w"]) simp
  have c: "\<exists>cs. snd (case control_vm w n i a of
                         (Inl e, w') \<Rightarrow> (Inl e, w')
                       | (Inr u, w') \<Rightarrow> (Inr x, w')) = w\<lparr>calls := cs\<rparr>" for n i a and x :: VMIdentifier
  proof -
    obtain r w1 where cv: "control_vm w n i a = (r, w1)"
      by (cases "control_vm w n i a")
    then obtain cs where "w1 = w\<lparr>calls := cs\<rparr>"
      using control_vm_world by blast
    then show ?thesis
      using cv by (cases r) auto
  qed
  show ?thesis
  proof (cases "get_vm_status w (proxmox_node vm) (vmid vm)")
    case (Inl e)
    then have "snd (vm_action action vm w) = w"
      by (simp add: vm_action_def)
    then show ?thesis
      using wid by simp
  next
    case (Inr sd)
    show ?thesis
    proof (cases "read_status sd")
      case (Inl e)
      then have "snd (vm_action action vm w) = w"
        using Inr by (simp add: vm_action_def)
      then show ?thesis
        using wid by simp
    next
      case r: (Inr s)
      show ?thesis
        using c wid by (simp add: vm_action_def Let_def Inr r)
    qed
  qed
qed

lemma vm_action_calls:
  "calls (snd (vm_action action vm w)) = calls w @ table_requests action w vm"
proof (cases "get_vm_status w (proxmox_node vm) (vmid vm)")
  case (Inl e)
  then show ?thesis by (simp add: vm_action_def table_requests_def)
next
  case (Inr sd)
  show ?thesis
  proof (cases "read_status sd")
    case (Inl e)
    then show ?thesis using Inr by (simp add: vm_action_def table_requests_def)
  next
    case r: (Inr s)
    show ?thesis using vm_action_request [OF Inr r, of action] Inr r
      by (simp add: table_requests_def)
  qed
qed

lemma table_requests_calls: "table_requests action (w\<lparr>calls := cs\<rparr>) vm = table_requests action w vm"
  by (simp add: table_requests_def get_vm_status_def split: option.splits)

lemma loop_vms_calls:
  "\<exists>k\<le>length vms.
      calls (snd (loop_vms (vm_action action) vms w))
        = calls w @ concat (map (table_requests action w) (take k vms))
      \<and> (\<forall>vms'. fst (loop_vms (vm_action action) vms w) = Inr vms' \<longrightarrow> k = length vms)"
proof (induction vms arbitrary: w)
  case Nil
  then show ?case by simp
next
  case (Cons vm vms)
  obtain r1 w1 where h: "vm_action action vm w = (r1, w1)"
    by (cases "vm_action action vm w")
  have c1: "calls w1 = calls w @ table_requests action w vm"
    using vm_action_calls [of action vm w] h by simp
  obtain cs where w1: "w1 = w\<lparr>calls := cs\<rparr>"
    using vm_action_world [of action vm w] h by auto
  show ?case
  proof (cases r1)
    case (Inl e)
    then have "loop_vms (vm_action action) (vm # vms) w = (Inl e, w1)"
      using h by simp
    then have "calls (snd (loop_vms (vm_action action) (vm # vms) w))
                 = calls w @ concat (map (table_requests action w) (take 1 (vm # vms)))
               \<and> (\<forall>vms'. fst (loop_vms (vm_action action) (vm # vms) w) = Inr vms' \<longrightarrow> 1 = length (vm # vms))"
      using c1 by simp
    then show ?thesis
      by (intro exI [of _ 1]) simp
  next
    case (Inr vm')
    obtain k where k: "k \<le> length vms"
      and kc: "calls (snd (loop_vms (vm_action action) vms w1))
                = calls w1 @ concat (map (table_requests action w1) (take k vms))"
      and kf: "\<forall>vms'. fst (loop_vms (vm_action action) vms w1) = Inr vms' \<longrightarrow> k = length vms"
      using Cons.IH [of w1] by blast
    have t: "map (table_requests action w1) (take k vms) = map (table_requests action w) (take k vms)"
      using w1 by (simp add: table_requests_calls)
    obtain r2 w2 where l: "loop_vms (vm_action action) vms w1 = (r2, w2)"
      by (cases "loop_vms (vm_action action) vms w1")
    have sn: "snd (loop_vms (vm_action action) (vm # vms) w) = w2"
      using h Inr l by (cases r2) auto
    have "calls w2 = calls w @ concat (map (table_requests action w) (take (Suc k) (vm # vms)))"
      using kc l c1 t by simp
    moreover have "\<forall>vms'. fst (loop_vms (vm_action action) (vm # vms) w) = Inr vms' \<longrightarrow> Suc k = length (vm # vms)"
      using h Inr l kf by (cases r2) auto
    ultimately show ?thesis
      using sn k by (intro exI [of _ "Suc k"]) simp
  qed
qed

text \<open>
  Claim C7. For a VM whose status fetch succeeds, the body of the loop of
  \<^verbatim>\<open>perform_vm_action\<close> sends exactly the request of the specification's transition
  table: nothing for start on a running VM and for stop on a stopped VM, a start for
  start on any other status, a shutdown for stop on any other status, a reboot for
  restart on a running VM, and a start for restart on any other status. For the whole
  action over the nodes that \<^verbatim>\<open>ensure_nodes_are_discovered\<close> gives: when the action
  returns, the requests sent are those of the table for each node in order; in every
  case they are those of the table for the nodes the loop got to, a node whose request
  the cluster refused being the last of them.
\<close>

theorem lifecycle_transitions:
  "(get_vm_status w (proxmox_node vm) (vmid vm) = Inr status_data
      \<and> read_status status_data = Inr current_status \<longrightarrow>
      calls (snd (vm_action action vm w)) =
        calls w @
        (case lifecycle_effect action current_status of
           None \<Rightarrow> []
         | Some request \<Rightarrow> [StatusPost (proxmox_node vm) (vmid vm) request]))
   \<and> (ensure_nodes_are_discovered cfg fs w True m = Inr discovered \<longrightarrow>
        (\<forall>m'. fst (perform_vm_action cfg fs action m w) = Inr m' \<longrightarrow>
           calls (snd (perform_vm_action cfg fs action m w))
             = calls w @ concat (map (table_requests action w) (all_nodes discovered)))
        \<and> (\<exists>k\<le>length (all_nodes discovered).
             calls (snd (perform_vm_action cfg fs action m w))
               = calls w @ concat (map (table_requests action w) (take k (all_nodes discovered)))))"
proof -
  have a: "calls (snd (vm_action action vm w)) =
        calls w @
        (case lifecycle_effect action current_status of
           None \<Rightarrow> []
         | Some request \<Rightarrow> [StatusPost (proxmox_node vm) (vmid vm) request])"
    if "get_vm_status w (proxmox_node vm) (vmid vm) = Inr status_data"
      and "read_status status_data = Inr current_status"
    using that vm_action_calls [of action vm w] by (simp add: table_requests_def)
  have b: "(\<forall>m'. fst (perform_vm_action cfg fs action m w) = Inr m' \<longrightarrow>
           calls (snd (perform_vm_action cfg fs action m w))
             = calls w @ concat (map (table_requests action w) (all_nodes discovered)))
        \<and> (\<exists>k\<le>length (all_nodes discovered).
             calls (snd (perform_vm_action cfg fs action m w))
               = calls w @ concat (map (table_requests action w) (take k (all_nodes discovered))))"
    if e: "ensure_nodes_are_discovered cfg fs w True m = Inr discovered"
  proof (cases "all_nodes discovered = []")
    case True
    then have "perform_vm_action cfg fs action m w = (Inr discovered, w)"
      using e by (simp add: perform_vm_action_def)
    then show ?thesis
      using True by simp
  next
    case False
    obtain r w' where l: "loop_vms (vm_action action) (all_nodes discovered) w = (r, w')"
      by (cases "loop_vms (vm_action action) (all_nodes discovered) w")
    have sn: "snd (perform_vm_action cfg fs action m w) = w'"
      using e False l by (cases r) (simp_all add: perform_vm_action_def)
    have fs: "\<exists>vms'. r = Inr vms'" if "fst (perform_vm_action cfg fs action m w) = Inr m'" for m'
      using that e False l by (cases r) (simp_all add: perform_vm_action_def)
    obtain k where k: "k \<le> length (all_nodes discovered)"
      and kc: "calls w' = calls w @ concat (map (table_requests action w) (take k (all_nodes discovered)))"
      and kf: "\<forall>vms'. r = Inr vms' \<longrightarrow> k = length (all_nodes discovered)"
      using loop_vms_calls [of "all_nodes discovered" action w] l by auto
    have "calls w' = calls w @ concat (map (table_requests action w) (all_nodes discovered))"
      if "fst (perform_vm_action cfg fs action m w) = Inr m'" for m'
      using fs [OF that] kf kc by auto
    then show ?thesis
      using sn k kc by auto
  qed
  show ?thesis
    using a b by blast
qed

theorem lifecycle_transitions_witness:
  "get_vm_status example_world (proxmox_node vm101) (vmid vm101)
     = Inr [(''status'', JStr ''stopped'')]
   \<and> read_status [(''status'', JStr ''stopped'')] = Inr ''stopped''
   \<and> calls (snd (vm_action ''restart'' vm101 example_world)) = [StatusPost ''pve1'' 101 ''start'']
   \<and> calls (snd (vm_action ''stop'' vm101 example_world)) = []
   \<and> ensure_nodes_are_discovered default_config no_files example_world True lifecycle_manager
       = Inr lifecycle_manager
   \<and> fst (perform_vm_action default_config no_files ''restart'' lifecycle_manager example_world)
       = Inr (lifecycle_manager\<lparr>all_nodes := [vm100\<lparr>status := Some ''running''\<rparr>,
                                                vm101\<lparr>status := Some ''stopped''\<rparr>]\<rparr>)
   \<and> calls (snd (perform_vm_action default_config no_files ''restart'' lifecycle_manager example_world))
       = [StatusPost ''pve1'' 100 ''reboot'', StatusPost ''pve1'' 101 ''start'']
   \<and> concat (map (table_requests ''restart'' example_world) (all_nodes lifecycle_manager))
       = [StatusPost ''pve1'' 100 ''reboot'', StatusPost ''pve1'' 101 ''start'']"
proof -
  have a: "get_vm_status example_world (proxmox_node vm101) (vmid vm101)
             = Inr [(''status'', JStr ''stopped'')]"
    by (simp add: get_vm_status_def example_world_def vm101_def new_vm_def)
  have b: "read_status [(''status'', JStr ''stopped'')] = Inr ''stopped''"
    by (simp add: read_status_def lower_def lower_char_def)
  have c: "ensure_nodes_are_discovered default_config no_files example_world True lifecycle_manager
             = Inr lifecycle_manager"
    by (simp add: ensure_nodes_are_discovered_def run2_defs)
  have d: "fst (perform_vm_action default_config no_files ''restart'' lifecycle_manager example_world)
             = Inr (lifecycle_manager\<lparr>all_nodes := [vm100\<lparr>status := Some ''running''\<rparr>,
                                                      vm101\<lparr>status := Some ''stopped''\<rparr>]\<rparr>)"
    "concat (map (table_requests ''restart'' example_world) (all_nodes lifecycle_manager))
       = [StatusPost ''pve1'' 100 ''reboot'', StatusPost ''pve1'' 101 ''start'']"
    "calls example_world = []"
    by (simp_all add: ensure_nodes_are_discovered_def perform_vm_action_def vm_action_def
          control_vm_def valid_actions_def table_requests_def lifecycle_effect_def run2_defs)
  have e: "lifecycle_effect ''restart'' ''stopped'' = Some ''start''"
    "lifecycle_effect ''stop'' ''stopped'' = None"
    "proxmox_node vm101 = ''pve1''" "vmid vm101 = 101"
    by (simp_all add: lifecycle_effect_def vm101_def new_vm_def)
  from lifecycle_transitions [of example_world vm101 "[(''status'', JStr ''stopped'')]" "''stopped''"
        "''restart''" default_config no_files lifecycle_manager lifecycle_manager]
    lifecycle_transitions [of example_world vm101 "[(''status'', JStr ''stopped'')]" "''stopped''"
        "''stop''" default_config no_files lifecycle_manager lifecycle_manager]
    a b c d e
  show ?thesis
    by simp
qed

section \<open>The restart after a convergence pass\<close>

text \<open>
  Claim C1. The restart loop of \<^verbatim>\<open>configure_vms\<close> calls \<^verbatim>\<open>control_vm\<close> with the action
  \<^verbatim>\<open>"restart"\<close>, which is none of the valid actions. On a cluster with two VMs to
  configure, a pass with \<open>restart_after\<close> set writes both configurations and then
  ends with \<^verbatim>\<open>ValueError\<close>: no power request is sent to any VM, although the same pass
  without \<open>restart_after\<close> returns a ledger with both VMs.
\<close>

theorem restart_after_raises_value_error:
  "fst (converge default_config JNull True False [vm101, vm100] example_world) = Inl ValueError
   \<and> power_requests (snd (converge default_config JNull True False [vm101, vm100] example_world)) = []
   \<and> ledger (converge default_config JNull False False [vm101, vm100] example_world)
       = Some [vm100_seen, vm101_seen]"
  by (simp add: converge_def default_config_def vm100_def vm101_def new_vm_def example_world_def vm_key_def
      configure_vm_def fetch_status_def fetch_config_def assign_ip_def get_vm_status_def get_vm_config_def read_status_def
      lower_def lower_char_def initial_state_def needs_update_def config_value_def ipconfig_key_def show_int_def
      target_ipconfig_value_def target_nameserver_value_def set_vm_network_config_def network_params_def Let_def
      control_vm_def valid_actions_def ipv4_str_def dict_update_def power_requests_def ledger_def
      vm100_seen_def vm101_seen_def)

section \<open>The config-file loader\<close>

lemma fold_err_append:
  "fold_err f (xs @ ys) s = (case fold_err f xs s of Inl e \<Rightarrow> Inl e | Inr s' \<Rightarrow> fold_err f ys s')"
  by (induction xs arbitrary: s) (auto split: sum.splits)

lemma load_vm_entry_skip:
  "map_of kvs ''vmid'' = None \<or> map_of kvs ''vmid'' = Some (JInt 0) \<Longrightarrow>
   load_vm_entry cfg h (JObj kvs) acc = Inr acc"
  by (auto simp: load_vm_entry_def)

lemma load_host_entry_skip:
  "(case map_of kvs ''id'' of None \<Rightarrow> True | Some v \<Rightarrow> \<not> py_truthy v) \<Longrightarrow>
   load_host_entry cfg (JObj kvs) acc = Inr acc"
  by (auto simp: load_host_entry_def split: option.splits)

text \<open>
  Claim C10. The loader skips a host entry whose \<^verbatim>\<open>id\<close> is missing or falsy, and a VM
  entry whose \<^verbatim>\<open>vmid\<close> is missing or 0, whatever its role: the entry leaves the three
  lists as they are, and the loop over the entries gives what it gives without the
  entry.
\<close>

theorem config_entries_skipped:
  "((case map_of host ''id'' of None \<Rightarrow> True | Some v \<Rightarrow> \<not> py_truthy v) \<longrightarrow>
      load_host_entry cfg (JObj host) acc = Inr acc
      \<and> fold_err (load_host_entry cfg) (before @ [JObj host] @ after) acc
          = fold_err (load_host_entry cfg) (before @ after) acc)
   \<and> (map_of vm ''vmid'' = None \<or> map_of vm ''vmid'' = Some (JInt 0) \<longrightarrow>
      load_vm_entry cfg proxmox_node_id (JObj vm) acc = Inr acc
      \<and> fold_err (load_vm_entry cfg proxmox_node_id) (before @ [JObj vm] @ after) acc
          = fold_err (load_vm_entry cfg proxmox_node_id) (before @ after) acc)"
  by (auto simp: fold_err_append load_vm_entry_skip load_host_entry_skip split: sum.splits)

theorem config_entries_skipped_witness:
  "map_of [(''vmid'', JInt 0), (''role'', JStr ''SERVER'')] ''vmid'' = Some (JInt 0)
   \<and> (case map_of [(''vms'', JArr [JObj [(''vmid'', JInt 7), (''role'', JStr ''AGENT'')]])] ''id'' of
        None \<Rightarrow> True | Some v \<Rightarrow> \<not> py_truthy v)
   \<and> load_vm_entry default_config (JStr ''pve1'')
        (JObj [(''vmid'', JInt 0), (''role'', JStr ''SERVER'')]) ([], [], []) = Inr ([], [], [])
   \<and> load_host_entry default_config
        (JObj [(''vms'', JArr [JObj [(''vmid'', JInt 7), (''role'', JStr ''AGENT'')]])]) ([], [], [])
       = Inr ([], [], [])
   \<and> load_entries default_config zero_vmid_document = Inr ([], [], [])"
proof -
  have a: "map_of [(''vmid'', JInt 0), (''role'', JStr ''SERVER'')] ''vmid'' = Some (JInt 0)"
    by simp
  have b: "(case map_of [(''vms'', JArr [JObj [(''vmid'', JInt 7), (''role'', JStr ''AGENT'')]])] ''id'' of
        None \<Rightarrow> True | Some v \<Rightarrow> \<not> py_truthy v)"
    by simp
  have c: "load_entries default_config zero_vmid_document = Inr ([], [], [])"
    by (simp add: load_entries_def zero_vmid_document_def load_host_entry_def load_vm_entry_def)
  from config_entries_skipped [of "[(''vms'', JArr [JObj [(''vmid'', JInt 7), (''role'', JStr ''AGENT'')]])]"
      default_config "([], [], [])" "[]" "[]" "[(''vmid'', JInt 0), (''role'', JStr ''SERVER'')]" "JStr ''pve1''"]
    a b c
  show ?thesis by simp
qed

lemma load_vm_entry_no_config_error: "load_vm_entry cfg h v acc \<noteq> Inl ConfigurationError"
  by (cases v) (auto simp: load_vm_entry_def split: sum.splits option.splits json.splits)

lemma fold_err_never:
  assumes "\<And>x s. f x s \<noteq> Inl e"
  shows "fold_err f xs s \<noteq> Inl e"
  using assms by (induction xs arbitrary: s) (auto split: sum.splits)

lemma py_get_error: "py_get j k d = Inl e \<Longrightarrow> e = AttributeError"
  by (cases j) auto

lemma py_iter_error: "py_iter j = Inl e \<Longrightarrow> e = TypeError"
  by (cases j) auto

lemma load_host_entry_no_config_error: "load_host_entry cfg p acc \<noteq> Inl ConfigurationError"
  using fold_err_never[of "load_vm_entry cfg h" ConfigurationError for h, OF load_vm_entry_no_config_error]
  by (auto simp: load_host_entry_def split: sum.splits dest: py_get_error py_iter_error)

lemma load_entries_no_config_error: "load_entries cfg data \<noteq> Inl ConfigurationError"
  using fold_err_never[of "load_host_entry cfg" ConfigurationError, OF load_host_entry_no_config_error]
  by (auto simp: load_entries_def split: sum.splits dest: py_get_error py_iter_error)

text \<open>
  Claim C8, as amended. When \<^verbatim>\<open>config.json\<close> does not exist the loader returns
  \<^verbatim>\<open>False\<close> and leaves the manager as it is. It raises \<^verbatim>\<open>ConfigurationError\<close> exactly
  when the file exists and reading it raises \<^verbatim>\<open>IOError\<close> or \<^verbatim>\<open>json.load\<close> raises
  \<^verbatim>\<open>JSONDecodeError\<close>; a file that holds valid JSON of another shape never gives
  \<^verbatim>\<open>ConfigurationError\<close>.
\<close>

theorem config_file_loader_errors:
  "(NODE_CONFIG_FILE fs = Missing \<longrightarrow> load_nodes_from_config_file cfg fs m = Inr (False, m))
   \<and> (load_nodes_from_config_file cfg fs m = Inl ConfigurationError
        \<longleftrightarrow> NODE_CONFIG_FILE fs = Unreadable \<or> NODE_CONFIG_FILE fs = Malformed)"
  using load_entries_no_config_error
  by (cases "NODE_CONFIG_FILE fs") (auto simp: load_nodes_from_config_file_def split: sum.splits)

theorem config_file_loader_errors_witness:
  "NODE_CONFIG_FILE no_files = Missing
   \<and> load_nodes_from_config_file default_config no_files (init_manager\<lparr>agents := [vm101]\<rparr>)
       = Inr (False, init_manager\<lparr>agents := [vm101]\<rparr>)
   \<and> load_nodes_from_config_file default_config (no_files\<lparr>NODE_CONFIG_FILE := Malformed\<rparr>) init_manager
       = Inl ConfigurationError"
  using config_file_loader_errors [of no_files default_config "init_manager\<lparr>agents := [vm101]\<rparr>"]
    config_file_loader_errors [of "no_files\<lparr>NODE_CONFIG_FILE := Malformed\<rparr>" default_config init_manager]
  by (simp add: no_files_def)

text \<open>
  The claim as written fails on a file that holds the JSON list \<^verbatim>\<open>[]\<close>: the file exists
  and is not of the expected structure, and the loader raises \<^verbatim>\<open>AttributeError\<close>.
\<close>

theorem config_file_loader_counterexample:
  "NODE_CONFIG_FILE list_files = Parsed (JArr [])
   \<and> load_nodes_from_config_file default_config list_files init_manager = Inl AttributeError
   \<and> load_nodes_from_config_file default_config list_files init_manager \<noteq> Inl ConfigurationError"
  by (simp add: list_files_def load_nodes_from_config_file_def load_entries_def)

section \<open>Discovery by tags: errors\<close>

lemma raised_not_discovery: "raised c \<noteq> NodeDiscoveryError"
  by (cases c) simp_all

lemma discover_vm_no_discovery_error: "discover_vm cfg w n i m \<noteq> Inl NodeDiscoveryError"
  using raised_not_discovery
  by (auto simp: discover_vm_def get_vm_config_def Let_def
      split: sum.splits option.splits json.splits if_splits)

lemma discover_host_no_discovery_error: "discover_host cfg w n m \<noteq> Inl NodeDiscoveryError"
  using fold_err_never [of "discover_vm cfg w n" NodeDiscoveryError, OF discover_vm_no_discovery_error]
    raised_not_discovery
  by (auto simp: discover_host_def get_vms_on_node_def split: sum.splits option.splits if_splits)

lemma discover_walk_no_discovery_error:
  "fold_err (discover_host cfg w) hosts m \<noteq> Inl NodeDiscoveryError"
  by (rule fold_err_never) (rule discover_host_no_discovery_error)

text \<open>
  Claim C3, as amended. \<^verbatim>\<open>discover_nodes_by_tags\<close> raises \<^verbatim>\<open>NodeDiscoveryError\<close> exactly
  when the host list cannot be fetched (a \<^verbatim>\<open>ProxmoxError\<close>) or is empty. When the walk
  finds no VM with a role tag it returns, with empty lists; the \<^verbatim>\<open>NodeDiscoveryError\<close>
  for that case is raised by the caller, \<^verbatim>\<open>ensure_nodes_are_discovered\<close>.
\<close>

theorem discovery_errors:
  "(discover_nodes_by_tags cfg w m = Inl NodeDiscoveryError
      \<longleftrightarrow> get_proxmox_cluster_nodes w = Inl ProxmoxError \<or> get_proxmox_cluster_nodes w = Inr [])
   \<and> (all_nodes m = [] \<and> NODE_CONFIG_FILE fs = Missing
        \<and> discover_nodes_by_tags cfg w m = Inr m2 \<and> all_nodes m2 = []
      \<longrightarrow> ensure_nodes_are_discovered cfg fs w True m = Inl NodeDiscoveryError)"
proof -
  have a: "discover_nodes_by_tags cfg w m = Inl NodeDiscoveryError
      \<longleftrightarrow> get_proxmox_cluster_nodes w = Inl ProxmoxError \<or> get_proxmox_cluster_nodes w = Inr []"
    using discover_walk_no_discovery_error [of cfg w _ m] raised_not_discovery
    by (auto simp: discover_nodes_by_tags_def get_proxmox_cluster_nodes_def
        split: sum.splits option.splits if_splits)
  have b: "ensure_nodes_are_discovered cfg fs w True m = Inl NodeDiscoveryError"
    if "all_nodes m = []" "NODE_CONFIG_FILE fs = Missing"
      "discover_nodes_by_tags cfg w m = Inr m2" "all_nodes m2 = []"
    using that by (simp add: ensure_nodes_are_discovered_def load_nodes_from_config_file_def)
  show ?thesis using a b by blast
qed

lemma untagged_discovery:
  "discover_nodes_by_tags default_config untagged_world init_manager = Inr init_manager"
  by code_simp

theorem discovery_errors_witness:
  "all_nodes init_manager = [] \<and> NODE_CONFIG_FILE no_files = Missing
   \<and> discover_nodes_by_tags default_config untagged_world init_manager = Inr init_manager
   \<and> ensure_nodes_are_discovered default_config no_files untagged_world True init_manager
       = Inl NodeDiscoveryError
   \<and> get_proxmox_cluster_nodes (untagged_world\<lparr>nodes_get := Some []\<rparr>) = Inr []
   \<and> discover_nodes_by_tags default_config (untagged_world\<lparr>nodes_get := Some []\<rparr>) init_manager
       = Inl NodeDiscoveryError"
proof -
  have a: "all_nodes init_manager = []" "NODE_CONFIG_FILE no_files = Missing"
    by (simp_all add: init_manager_def no_files_def)
  have b: "get_proxmox_cluster_nodes (untagged_world\<lparr>nodes_get := Some []\<rparr>) = Inr []"
    by (simp add: get_proxmox_cluster_nodes_def untagged_world_def)
  from discovery_errors [of default_config untagged_world init_manager no_files init_manager]
    discovery_errors [of default_config "untagged_world\<lparr>nodes_get := Some []\<rparr>" init_manager no_files init_manager]
    a b untagged_discovery
  show ?thesis by simp
qed

text \<open>
  The claim as written fails on a cluster whose host list is not empty and whose only
  VM carries no role tag: discovery returns the manager with no node, and no error.
\<close>

theorem discovery_errors_counterexample:
  "get_proxmox_cluster_nodes untagged_world = Inr [''pve1'']
   \<and> discover_nodes_by_tags default_config untagged_world init_manager = Inr init_manager
   \<and> all_nodes init_manager = []"
  by code_simp

section \<open>The SSH public key\<close>

text \<open>
  Claim C9. With no key in the environment, a \<^verbatim>\<open>config.json\<close> whose \<^verbatim>\<open>ssh_key\<close> field
  is the empty string and a key file that holds a key, \<^verbatim>\<open>_get_ssh_public_key\<close> returns
  the empty string: the empty field of the config file wins over the key of the key
  file.
\<close>

theorem empty_config_key_shadows_key_file:
  "get_ssh_public_key default_config empty_key_files = Inr (JStr [])
   \<and> key_from_file empty_key_files = JStr ''ssh-ed25519 AAAAC3Nz admin@lan''"
  by (simp add: get_ssh_public_key_def default_config_def empty_key_files_def
      key_from_config_file_def key_from_file_def strip_def is_space_def)

section \<open>The convergence pass: what the loop changes\<close>

lemma same_cluster_refl: "same_cluster w w"
  by (simp add: same_cluster_def)


lemma set_vm_network_config_frame:
  assumes "set_vm_network_config cfg w n i a b c k = (r, w')"
  shows "same_cluster w w' \<and> (\<forall>q. q \<noteq> (n, i) \<longrightarrow> config_get w' q = config_get w q)"
  using assms
  by (auto simp: set_vm_network_config_def same_cluster_def Let_def
      split: option.splits sum.splits if_splits)

lemma fetch_status_key:
  "fetch_status vm w = Inr vm1 \<Longrightarrow> vm_key vm1 = vm_key vm \<and> config vm1 = config vm"
  by (auto simp: fetch_status_def vm_key_def split: sum.splits if_splits)

lemma fetch_config_key:
  "fetch_config cfg vm1 w = Inr (Some vm2) \<Longrightarrow> vm_key vm2 = vm_key vm1"
  by (auto simp: fetch_config_def vm_key_def split: sum.splits if_splits)

lemma assign_ip_frame:
  assumes "assign_ip cfg key force e vm st w = (r, w')"
  shows "same_cluster w w' \<and> (\<forall>q. q \<noteq> vm_key vm \<longrightarrow> config_get w' q = config_get w q)"
proof (cases "next_ip_to_assign_int st > e \<or> \<not> needs_update cfg force (next_ip_to_assign_int st) (config vm)")
  case True
  then have "w' = w" using assms by (auto simp: assign_ip_def split: if_splits)
  then show ?thesis by (simp add: same_cluster_refl)
next
  case False
  obtain r0 w0 where s: "set_vm_network_config cfg w (proxmox_node vm) (vmid vm)
                (target_ipconfig_value cfg (next_ip_to_assign_int st))
                (target_nameserver_value cfg) (K3S_NODE_SEARCH_DOMAIN cfg) key = (r0, w0)"
    by (cases "set_vm_network_config cfg w (proxmox_node vm) (vmid vm)
                (target_ipconfig_value cfg (next_ip_to_assign_int st))
                (target_nameserver_value cfg) (K3S_NODE_SEARCH_DOMAIN cfg) key") 
  then have "w' = w0" using assms False by (auto simp: assign_ip_def split: sum.splits if_splits)
  then show ?thesis using set_vm_network_config_frame[OF s] by (simp add: vm_key_def)
qed

lemma configure_vm_frame:
  assumes "configure_vm cfg key force e vm st w = (r, w')"
  shows "same_cluster w w' \<and> (\<forall>q. q \<noteq> vm_key vm \<longrightarrow> config_get w' q = config_get w q)"
proof (cases "fetch_status vm w")
  case (Inl a)
  then have "w' = w" using assms by (simp add: configure_vm_def)
  then show ?thesis by (simp add: same_cluster_refl)
next
  case (Inr vm1)
  show ?thesis
  proof (cases "fetch_config cfg vm1 w")
    case (Inl a)
    then have "w' = w" using assms Inr by (simp add: configure_vm_def)
    then show ?thesis by (simp add: same_cluster_refl)
  next
    case c: (Inr o2)
    show ?thesis
    proof (cases o2)
      case None
      then have "w' = w" using assms Inr c by (simp add: configure_vm_def)
      then show ?thesis by (simp add: same_cluster_refl)
    next
      case (Some vm2)
      obtain r0 w0 where a: "assign_ip cfg key force e vm2 st w = (r0, w0)"
        by (cases "assign_ip cfg key force e vm2 st w")
      then have "w' = w0" using assms Inr c Some by (auto simp: configure_vm_def split: sum.splits)
      moreover have "vm_key vm2 = vm_key vm"
        using fetch_status_key[OF Inr] fetch_config_key c Some by metis
      ultimately show ?thesis using assign_ip_frame[OF a] by simp
    qed
  qed
qed


section \<open>The idempotency check\<close>





section \<open>The address cursor\<close>

lemma config_available_same:
  assumes "same_cluster w w'"
  shows "config_available cfg w' vm = config_available cfg w vm"
proof -
  have n: "(config_get w' (proxmox_node vm, vmid vm) = None)
             = (config_get w (proxmox_node vm, vmid vm) = None)"
    and c: "client_error w' = client_error w"
    using assms by (simp_all add: same_cluster_def)
  show ?thesis
    using n
    by (cases "config_get w' (proxmox_node vm, vmid vm)";
        cases "config_get w (proxmox_node vm, vmid vm)")
       (simp_all add: config_available_def fetch_config_def get_vm_config_def c
          split: option.splits)
qed

lemma config_available_status:
  "fetch_status vm w = Inr vm1 \<Longrightarrow> config_available cfg w vm1 = config_available cfg w vm"
  by (auto simp: fetch_status_def config_available_def fetch_config_def
      split: sum.splits if_splits option.splits)

lemma assign_ip_cursor:
  "assign_ip cfg key force e vm st w = (Inr st', w') \<Longrightarrow>
   next_ip_to_assign_int st' =
     (if next_ip_to_assign_int st \<le> e then next_ip_to_assign_int st + 1 else next_ip_to_assign_int st)"
  by (auto simp: assign_ip_def split: if_splits sum.splits prod.splits)

lemma configure_vm_cursor:
  assumes "configure_vm cfg key force e vm st w = (Inr (vm', st'), w')"
  shows "next_ip_to_assign_int st' =
     (if config_available cfg w vm \<and> next_ip_to_assign_int st \<le> e
      then next_ip_to_assign_int st + 1 else next_ip_to_assign_int st)"
proof -
  obtain vm1 where s: "fetch_status vm w = Inr vm1"
    using assms by (auto simp: configure_vm_def split: sum.splits)
  obtain o2 where c: "fetch_config cfg vm1 w = Inr o2"
    using assms s by (auto simp: configure_vm_def split: sum.splits)
  have "config_available cfg w vm1 = (o2 \<noteq> None)"
    by (simp add: config_available_def c split: option.splits)
  then have av: "config_available cfg w vm = (o2 \<noteq> None)"
    using config_available_status[OF s, of cfg] by simp
  show ?thesis
  proof (cases o2)
    case None
    then show ?thesis using assms s c av by (simp add: configure_vm_def)
  next
    case (Some vm2)
    then obtain w0 where "assign_ip cfg key force e vm2 st w = (Inr st', w0)"
      using assms s c by (auto simp: configure_vm_def split: sum.splits prod.splits)
    then show ?thesis using assign_ip_cursor av Some by simp
  qed
qed

text \<open>
  Claim C2, as amended. The cursor advances by exactly one for every node whose
  attribute map is available, whether the node is skipped as already configured,
  written, or refused by the cluster, as long as the range has an address left; it
  does not advance for a node whose attribute map cannot be fetched, nor once the
  range is exhausted. So a loop that completes from a cursor within the range ends
  with the start plus the number of nodes with an attribute map, capped at the end of
  the range plus one.
\<close>

theorem cursor_advances_per_configured_node:
  assumes "fst (configure_loop cfg ssh_key force ip_range_end_int vms st w) = Inr (vms', st')"
    and "next_ip_to_assign_int st \<le> ip_range_end_int + 1"
  shows "next_ip_to_assign_int st' =
           min (ip_range_end_int + 1)
               (next_ip_to_assign_int st + int (length (filter (config_available cfg w) vms)))"
  using assms
proof (induction vms arbitrary: st w vms' st')
  case Nil
  then show ?case by simp
next
  case (Cons vm vms)
  obtain r1 w1 where h: "configure_vm cfg ssh_key force ip_range_end_int vm st w = (r1, w1)"
    by (cases "configure_vm cfg ssh_key force ip_range_end_int vm st w")
  obtain vm1 st1 where r1: "r1 = Inr (vm1, st1)"
    using Cons.prems(1) h by (cases r1) auto
  obtain r2 w2 where l: "configure_loop cfg ssh_key force ip_range_end_int vms st1 w1 = (r2, w2)"
    by (cases "configure_loop cfg ssh_key force ip_range_end_int vms st1 w1")
  obtain vms1 where r2: "r2 = Inr (vms1, st')"
    using Cons.prems(1) h r1 l by (cases r2) auto
  have n1: "next_ip_to_assign_int st1 =
     (if config_available cfg w vm \<and> next_ip_to_assign_int st \<le> ip_range_end_int
      then next_ip_to_assign_int st + 1 else next_ip_to_assign_int st)"
    using configure_vm_cursor h r1 by simp
  then have le: "next_ip_to_assign_int st1 \<le> ip_range_end_int + 1"
    using Cons.prems(2) by auto
  have sc: "same_cluster w w1" using configure_vm_frame[OF h] by simp
  have flt: "filter (config_available cfg w1) vms = filter (config_available cfg w) vms"
    by (rule filter_cong) (simp_all add: config_available_same[OF sc])
  have "next_ip_to_assign_int st' =
           min (ip_range_end_int + 1)
               (next_ip_to_assign_int st1 + int (length (filter (config_available cfg w1) vms)))"
    using Cons.IH[of st1 w1 vms1 st'] l r2 le by simp
  then show ?case using n1 flt Cons.prems(2) by auto
qed

theorem cursor_advances_per_configured_node_witness:
  "fst (configure_loop default_config JNull False 168427749 [vm100, vm200, vm101]
          (initial_state 168427721) example_world)
     = Inr ([vm100_seen, vm200\<lparr>status := Some ''unknown''\<rparr>, vm101_seen],
            \<lparr>next_ip_to_assign_int = 168427723, modified_vms = [vm100_seen, vm101_seen],
             running_modified_vms = [vm100_seen]\<rparr>)
   \<and> next_ip_to_assign_int (initial_state 168427721) \<le> 168427749 + 1
   \<and> filter (config_available default_config example_world) [vm100, vm200, vm101] = [vm100, vm101]
   \<and> next_ip_to_assign_int
         \<lparr>next_ip_to_assign_int = 168427723, modified_vms = [vm100_seen, vm101_seen],
          running_modified_vms = [vm100_seen]\<rparr> = 168427721 + 2"
proof -
  have a: "fst (configure_loop default_config JNull False 168427749 [vm100, vm200, vm101]
          (initial_state 168427721) example_world)
     = Inr ([vm100_seen, vm200\<lparr>status := Some ''unknown''\<rparr>, vm101_seen],
            \<lparr>next_ip_to_assign_int = 168427723, modified_vms = [vm100_seen, vm101_seen],
             running_modified_vms = [vm100_seen]\<rparr>)"
    by (simp add: run_defs)
  have b: "next_ip_to_assign_int (initial_state 168427721) \<le> 168427749 + 1"
    by (simp add: initial_state_def)
  have c: "filter (config_available default_config example_world) [vm100, vm200, vm101] = [vm100, vm101]"
    by (simp add: config_available_def run_defs)
  from cursor_advances_per_configured_node [OF a b] a b c show ?thesis
    by simp
qed

text \<open>
  The claim as written fails on two nodes of which the second has no attribute map on
  the cluster: the range is far from exhausted, and the cursor ends at the start plus
  one, not plus two.
\<close>

theorem cursor_counterexample:
  "final_cursor (configure_loop default_config JNull False 168427749 [vm100, vm200]
                   (initial_state 168427721) example_world) = Some (168427721 + 1)
   \<and> final_cursor (configure_loop default_config JNull False 168427749 [vm100, vm200]
                   (initial_state 168427721) example_world)
       \<noteq> Some (168427721 + int (length [vm100, vm200]))
   \<and> 168427721 + int (length [vm100, vm200]) \<le> 168427749"
  by (simp add: final_cursor_def run_defs)

section \<open>Idempotence of the convergence pass\<close>





































end
